theory Spec2Isabelle
  imports Main
begin

section \<open>Go strings: bytes, runes and upper-casing\<close>

text \<open>
  A Go \<open>string\<close> is a sequence of bytes, modelled by \<open>string\<close> (a list of 8-bit
  characters). \<open>strings.ToUpper\<close> and \<open>regexp.MatchString\<close> read such a string as
  UTF-8: each step decodes one rune, and a byte that starts no valid encoding is read as
  \<open>utf8.RuneError\<close> (U+FFFD) of width 1.
\<close>

type_synonym rune = nat

definition byte :: "char \<Rightarrow> nat" where
  "byte c = of_char c"

definition RuneError :: rune where
  "RuneError = 0xFFFD"

definition RuneSelf :: nat where
  "RuneSelf = 0x80"

definition inRange :: "nat \<Rightarrow> nat \<Rightarrow> char \<Rightarrow> bool" where
  "inRange lo hi c = (lo \<le> byte c \<and> byte c \<le> hi)"

definition low6 :: "char \<Rightarrow> nat" where
  "low6 c = byte c mod 64"

text \<open>
  The second byte of a three or four byte encoding is restricted by the first
  (\<open>acceptRanges\<close> of package \<open>utf8\<close>): overlong forms and surrogates are refused.
\<close>

definition acceptLo :: "nat \<Rightarrow> nat" where
  "acceptLo x = (if x = 0xE0 then 0xA0 else if x = 0xF0 then 0x90 else 0x80)"

definition acceptHi :: "nat \<Rightarrow> nat" where
  "acceptHi x = (if x = 0xED then 0x9F else if x = 0xF4 then 0x8F else 0xBF)"

text \<open>\<open>utf8.DecodeRuneInString\<close>: the first rune of a string and its width in bytes.\<close>

definition DecodeRuneInString :: "string \<Rightarrow> rune \<times> nat" where
  "DecodeRuneInString s =
     (case s of
        [] \<Rightarrow> (RuneError, 0)
      | b0 # t \<Rightarrow>
          (let x = byte b0 in
           if x < RuneSelf then (x, 1)
           else if 0xC2 \<le> x \<and> x \<le> 0xDF then
             (case t of
                b1 # _ \<Rightarrow>
                  if inRange 0x80 0xBF b1 then ((x mod 32) * 64 + low6 b1, 2)
                  else (RuneError, 1)
              | [] \<Rightarrow> (RuneError, 1))
           else if 0xE0 \<le> x \<and> x \<le> 0xEF then
             (case t of
                b1 # b2 # _ \<Rightarrow>
                  if inRange (acceptLo x) (acceptHi x) b1 \<and> inRange 0x80 0xBF b2
                  then ((x mod 16) * 4096 + low6 b1 * 64 + low6 b2, 3)
                  else (RuneError, 1)
              | _ \<Rightarrow> (RuneError, 1))
           else if 0xF0 \<le> x \<and> x \<le> 0xF4 then
             (case t of
                b1 # b2 # b3 # _ \<Rightarrow>
                  if inRange (acceptLo x) (acceptHi x) b1 \<and> inRange 0x80 0xBF b2
                     \<and> inRange 0x80 0xBF b3
                  then ((x mod 8) * 262144 + low6 b1 * 4096 + low6 b2 * 64 + low6 b3, 4)
                  else (RuneError, 1)
              | _ \<Rightarrow> (RuneError, 1))
           else (RuneError, 1)))"

text \<open>The runes of a string, as \<open>for _, c := range s\<close> yields them.\<close>

function runes :: "string \<Rightarrow> rune list" where
  "runes s =
     (if s = [] then []
      else fst (DecodeRuneInString s) # runes (drop (snd (DecodeRuneInString s)) s))"
  by pat_completeness auto
termination
proof (relation "measure length")
  show "wf (measure length)" by simp
next
  fix s :: string
  assume ne: "s \<noteq> []"
  then have w: "1 \<le> snd (DecodeRuneInString s)"
    by (cases s) (simp_all add: DecodeRuneInString_def Let_def split: list.split)
  from ne have "0 < length s"
    by simp
  with w show "(drop (snd (DecodeRuneInString s)) s, s) \<in> measure length"
    by simp
qed

declare runes.simps [simp del]

text \<open>\<open>utf8.AppendRune\<close>: the UTF-8 encoding of a rune; a surrogate or a value beyond
  U+10FFFF is written as U+FFFD.\<close>

definition chr :: "nat \<Rightarrow> char" where
  "chr n = char_of n"

definition EncodeRune :: "rune \<Rightarrow> string" where
  "EncodeRune r =
     (if r \<le> 0x7F then [chr r]
      else if r \<le> 0x7FF then [chr (0xC0 + r div 64), chr (0x80 + r mod 64)]
      else if r > 0x10FFFF \<or> (0xD800 \<le> r \<and> r \<le> 0xDFFF) then [chr 0xEF, chr 0xBF, chr 0xBD]
      else if r \<le> 0xFFFF then
        [chr (0xE0 + r div 4096), chr (0x80 + (r div 64) mod 64), chr (0x80 + r mod 64)]
      else
        [chr (0xF0 + r div 262144), chr (0x80 + (r div 4096) mod 64),
         chr (0x80 + (r div 64) mod 64), chr (0x80 + r mod 64)])"

text \<open>\<open>strings.Map\<close>: every rune of the string is mapped and written back in UTF-8.\<close>

definition strings_Map :: "(rune \<Rightarrow> rune) \<Rightarrow> string \<Rightarrow> string" where
  "strings_Map mapping s = concat (map (\<lambda>c. EncodeRune (mapping c)) (runes s))"

text \<open>
  \<open>unicode.ToUpper\<close>: ASCII letters by arithmetic, every other rune through the table
  \<open>unicode.CaseRanges\<close>, which holds the simple case mappings of the Unicode standard
  (version 15.0.0). A row \<open>(Lo, Hi, delta)\<close> covers the runes from \<open>Lo\<close> to \<open>Hi\<close>. Its
  delta is a number to add, or \<open>UpperLower\<close> for a run of pairs of an upper-case rune
  followed by its lower-case rune. The table below is the upper-case column of
  \<open>unicode.CaseRanges\<close>: rows whose upper-case delta is zero are left out (a rune of no
  row is returned as it is), and an upper/lower pair is written as an \<open>UpperLower\<close> row.
  Two non-ASCII runes have an ASCII upper case: U+0131 (dotless i, to \<open>I\<close>) and U+017F
  (long s, to \<open>S\<close>).
\<close>

datatype delta = Delta int | UpperLower

definition CaseRanges :: "(rune \<times> rune \<times> delta) list" where
  "CaseRanges =
     [(0x00B5, 0x00B5, Delta 743), (0x00E0, 0x00F6, Delta (- 32)),
      (0x00F8, 0x00FE, Delta (- 32)), (0x00FF, 0x00FF, Delta 121),
      (0x0100, 0x012F, UpperLower), (0x0131, 0x0131, Delta (- 232)),
      (0x0132, 0x0137, UpperLower), (0x0139, 0x0148, UpperLower),
      (0x014A, 0x0177, UpperLower), (0x0179, 0x017E, UpperLower),
      (0x017F, 0x017F, Delta (- 300)), (0x0180, 0x0180, Delta 195),
      (0x0182, 0x0185, UpperLower), (0x0187, 0x0188, UpperLower),
      (0x018B, 0x018C, UpperLower), (0x0191, 0x0192, UpperLower),
      (0x0195, 0x0195, Delta 97), (0x0198, 0x0199, UpperLower),
      (0x019A, 0x019A, Delta 163), (0x019E, 0x019E, Delta 130),
      (0x01A0, 0x01A5, UpperLower), (0x01A7, 0x01A8, UpperLower),
      (0x01AC, 0x01AD, UpperLower), (0x01AF, 0x01B0, UpperLower),
      (0x01B3, 0x01B6, UpperLower), (0x01B8, 0x01B9, UpperLower),
      (0x01BC, 0x01BD, UpperLower), (0x01BF, 0x01BF, Delta 56),
      (0x01C4, 0x01C5, UpperLower), (0x01C6, 0x01C6, Delta (- 2)),
      (0x01C7, 0x01C8, UpperLower), (0x01C9, 0x01C9, Delta (- 2)),
      (0x01CA, 0x01CB, UpperLower), (0x01CC, 0x01CC, Delta (- 2)),
      (0x01CD, 0x01DC, UpperLower), (0x01DD, 0x01DD, Delta (- 79)),
      (0x01DE, 0x01EF, UpperLower), (0x01F1, 0x01F2, UpperLower),
      (0x01F3, 0x01F3, Delta (- 2)), (0x01F4, 0x01F5, UpperLower),
      (0x01F8, 0x021F, UpperLower), (0x0222, 0x0233, UpperLower),
      (0x023B, 0x023C, UpperLower), (0x023F, 0x0240, Delta 10815),
      (0x0241, 0x0242, UpperLower), (0x0246, 0x024F, UpperLower),
      (0x0250, 0x0250, Delta 10783), (0x0251, 0x0251, Delta 10780),
      (0x0252, 0x0252, Delta 10782), (0x0253, 0x0253, Delta (- 210)),
      (0x0254, 0x0254, Delta (- 206)), (0x0256, 0x0257, Delta (- 205)),
      (0x0259, 0x0259, Delta (- 202)), (0x025B, 0x025B, Delta (- 203)),
      (0x025C, 0x025C, Delta 42319), (0x0260, 0x0260, Delta (- 205)),
      (0x0261, 0x0261, Delta 42315), (0x0263, 0x0263, Delta (- 207)),
      (0x0265, 0x0265, Delta 42280), (0x0266, 0x0266, Delta 42308),
      (0x0268, 0x0268, Delta (- 209)), (0x0269, 0x0269, Delta (- 211)),
      (0x026A, 0x026A, Delta 42308), (0x026B, 0x026B, Delta 10743),
      (0x026C, 0x026C, Delta 42305), (0x026F, 0x026F, Delta (- 211)),
      (0x0271, 0x0271, Delta 10749), (0x0272, 0x0272, Delta (- 213)),
      (0x0275, 0x0275, Delta (- 214)), (0x027D, 0x027D, Delta 10727),
      (0x0280, 0x0280, Delta (- 218)), (0x0282, 0x0282, Delta 42307),
      (0x0283, 0x0283, Delta (- 218)), (0x0287, 0x0287, Delta 42282),
      (0x0288, 0x0288, Delta (- 218)), (0x0289, 0x0289, Delta (- 69)),
      (0x028A, 0x028B, Delta (- 217)), (0x028C, 0x028C, Delta (- 71)),
      (0x0292, 0x0292, Delta (- 219)), (0x029D, 0x029D, Delta 42261),
      (0x029E, 0x029E, Delta 42258), (0x0345, 0x0345, Delta 84),
      (0x0370, 0x0373, UpperLower), (0x0376, 0x0377, UpperLower),
      (0x037B, 0x037D, Delta 130), (0x03AC, 0x03AC, Delta (- 38)),
      (0x03AD, 0x03AF, Delta (- 37)), (0x03B1, 0x03C1, Delta (- 32)),
      (0x03C2, 0x03C2, Delta (- 31)), (0x03C3, 0x03CB, Delta (- 32)),
      (0x03CC, 0x03CC, Delta (- 64)), (0x03CD, 0x03CE, Delta (- 63)),
      (0x03D0, 0x03D0, Delta (- 62)), (0x03D1, 0x03D1, Delta (- 57)),
      (0x03D5, 0x03D5, Delta (- 47)), (0x03D6, 0x03D6, Delta (- 54)),
      (0x03D7, 0x03D7, Delta (- 8)), (0x03D8, 0x03EF, UpperLower),
      (0x03F0, 0x03F0, Delta (- 86)), (0x03F1, 0x03F1, Delta (- 80)),
      (0x03F2, 0x03F2, Delta 7), (0x03F3, 0x03F3, Delta (- 116)),
      (0x03F5, 0x03F5, Delta (- 96)), (0x03F7, 0x03F8, UpperLower),
      (0x03FA, 0x03FB, UpperLower), (0x0430, 0x044F, Delta (- 32)),
      (0x0450, 0x045F, Delta (- 80)), (0x0460, 0x0481, UpperLower),
      (0x048A, 0x04BF, UpperLower), (0x04C1, 0x04CE, UpperLower),
      (0x04CF, 0x04CF, Delta (- 15)), (0x04D0, 0x052F, UpperLower),
      (0x0561, 0x0586, Delta (- 48)), (0x10D0, 0x10FA, Delta 3008),
      (0x10FD, 0x10FF, Delta 3008), (0x13F8, 0x13FD, Delta (- 8)),
      (0x1C80, 0x1C80, Delta (- 6254)), (0x1C81, 0x1C81, Delta (- 6253)),
      (0x1C82, 0x1C82, Delta (- 6244)), (0x1C83, 0x1C84, Delta (- 6242)),
      (0x1C85, 0x1C85, Delta (- 6243)), (0x1C86, 0x1C86, Delta (- 6236)),
      (0x1C87, 0x1C87, Delta (- 6181)), (0x1C88, 0x1C88, Delta 35266),
      (0x1D79, 0x1D79, Delta 35332), (0x1D7D, 0x1D7D, Delta 3814),
      (0x1D8E, 0x1D8E, Delta 35384), (0x1E00, 0x1E95, UpperLower),
      (0x1E9B, 0x1E9B, Delta (- 59)), (0x1EA0, 0x1EFF, UpperLower),
      (0x1F00, 0x1F07, Delta 8), (0x1F10, 0x1F15, Delta 8),
      (0x1F20, 0x1F27, Delta 8), (0x1F30, 0x1F37, Delta 8),
      (0x1F40, 0x1F45, Delta 8), (0x1F51, 0x1F51, Delta 8),
      (0x1F53, 0x1F53, Delta 8), (0x1F55, 0x1F55, Delta 8),
      (0x1F57, 0x1F57, Delta 8), (0x1F60, 0x1F67, Delta 8),
      (0x1F70, 0x1F71, Delta 74), (0x1F72, 0x1F75, Delta 86),
      (0x1F76, 0x1F77, Delta 100), (0x1F78, 0x1F79, Delta 128),
      (0x1F7A, 0x1F7B, Delta 112), (0x1F7C, 0x1F7D, Delta 126),
      (0x1F80, 0x1F87, Delta 8), (0x1F90, 0x1F97, Delta 8),
      (0x1FA0, 0x1FA7, Delta 8), (0x1FB0, 0x1FB1, Delta 8),
      (0x1FB3, 0x1FB3, Delta 9), (0x1FBE, 0x1FBE, Delta (- 7205)),
      (0x1FC3, 0x1FC3, Delta 9), (0x1FD0, 0x1FD1, Delta 8),
      (0x1FE0, 0x1FE1, Delta 8), (0x1FE5, 0x1FE5, Delta 7),
      (0x1FF3, 0x1FF3, Delta 9), (0x214E, 0x214E, Delta (- 28)),
      (0x2170, 0x217F, Delta (- 16)), (0x2183, 0x2184, UpperLower),
      (0x24D0, 0x24E9, Delta (- 26)), (0x2C30, 0x2C5F, Delta (- 48)),
      (0x2C60, 0x2C61, UpperLower), (0x2C65, 0x2C65, Delta (- 10795)),
      (0x2C66, 0x2C66, Delta (- 10792)), (0x2C67, 0x2C6C, UpperLower),
      (0x2C72, 0x2C73, UpperLower), (0x2C75, 0x2C76, UpperLower),
      (0x2C80, 0x2CE3, UpperLower), (0x2CEB, 0x2CEE, UpperLower),
      (0x2CF2, 0x2CF3, UpperLower), (0x2D00, 0x2D25, Delta (- 7264)),
      (0x2D27, 0x2D27, Delta (- 7264)), (0x2D2D, 0x2D2D, Delta (- 7264)),
      (0xA640, 0xA66D, UpperLower), (0xA680, 0xA69B, UpperLower),
      (0xA722, 0xA72F, UpperLower), (0xA732, 0xA76F, UpperLower),
      (0xA779, 0xA77C, UpperLower), (0xA77E, 0xA787, UpperLower),
      (0xA78B, 0xA78C, UpperLower), (0xA790, 0xA793, UpperLower),
      (0xA794, 0xA794, Delta 48), (0xA796, 0xA7A9, UpperLower),
      (0xA7B4, 0xA7C3, UpperLower), (0xA7C7, 0xA7CA, UpperLower),
      (0xA7D0, 0xA7D1, UpperLower), (0xA7D6, 0xA7D9, UpperLower),
      (0xA7F5, 0xA7F6, UpperLower), (0xAB53, 0xAB53, Delta (- 928)),
      (0xAB70, 0xABBF, Delta (- 38864)), (0xFF41, 0xFF5A, Delta (- 32)),
      (0x10428, 0x1044F, Delta (- 40)), (0x104D8, 0x104FB, Delta (- 40)),
      (0x10597, 0x105A1, Delta (- 39)), (0x105A3, 0x105B1, Delta (- 39)),
      (0x105B3, 0x105B9, Delta (- 39)), (0x105BB, 0x105BC, Delta (- 39)),
      (0x10CC0, 0x10CF2, Delta (- 64)), (0x118C0, 0x118DF, Delta (- 32)),
      (0x16E60, 0x16E7F, Delta (- 32)), (0x1E922, 0x1E943, Delta (- 34))]"

text \<open>
  \<open>to(UpperCase, r, caseRange)\<close>: the row that holds the rune decides. In an
  \<open>UpperLower\<close> row the runes at even offsets from \<open>Lo\<close> are upper case, so the low bit
  of the offset is cleared. The rows are sorted and disjoint; Go finds the row by binary
  search, the model by going through the rows in order.
\<close>

fun to_UpperCase :: "(rune \<times> rune \<times> delta) list \<Rightarrow> rune \<Rightarrow> rune" where
  "to_UpperCase [] r = r"
| "to_UpperCase ((lo, hi, d) # caseRange) r =
     (if lo \<le> r \<and> r \<le> hi then
        (case d of
           UpperLower \<Rightarrow> lo + 2 * ((r - lo) div 2)
         | Delta k \<Rightarrow> nat (int r + k))
      else to_UpperCase caseRange r)"

definition unicode_ToUpper :: "rune \<Rightarrow> rune" where
  "unicode_ToUpper r =
     (if r \<le> 0x7F then (if 97 \<le> r \<and> r \<le> 122 then r - 32 else r)
      else to_UpperCase CaseRanges r)"

text \<open>
  \<open>strings.ToUpper\<close>: a string of ASCII bytes only is upper-cased byte by byte; any
  other string goes through \<open>strings.Map(unicode.ToUpper, s)\<close>.
\<close>

definition isASCII :: "string \<Rightarrow> bool" where
  "isASCII s = list_all (\<lambda>c. byte c < RuneSelf) s"

definition upper_byte :: "char \<Rightarrow> char" where
  "upper_byte c = (if 97 \<le> byte c \<and> byte c \<le> 122 then chr (byte c - 32) else c)"

definition strings_ToUpper :: "string \<Rightarrow> string" where
  "strings_ToUpper s =
     (if isASCII s then map upper_byte s else strings_Map unicode_ToUpper s)"

text \<open>\<open>strings.Contains\<close>: some suffix of the string starts with the substring.\<close>

fun strings_Contains :: "string \<Rightarrow> string \<Rightarrow> bool" where
  "strings_Contains [] substr = (substr = [])"
| "strings_Contains (c # s) substr =
     (take (length substr) (c # s) = substr \<or> strings_Contains s substr)"

section \<open>The access-code pattern\<close>

text \<open>
  The regular expressions of this program are anchored sequences of counted items
  (\<open>^[A-Z0-9]{3}-[A-Z0-9]{3}$\<close>): a literal rune or a class of rune ranges, each
  repeated a fixed number of times. \<open>regexp.MatchString\<close> matches the runes of the string; without the
  flag \<open>m\<close>, \<open>$\<close> matches at the end of the text only.
\<close>

datatype re_item = Lit rune | Class "(rune \<times> rune) list"

fun item_matches :: "re_item \<Rightarrow> rune \<Rightarrow> bool" where
  "item_matches (Lit c) r = (r = c)"
| "item_matches (Class rs) r = list_ex (\<lambda>(lo, hi). lo \<le> r \<and> r \<le> hi) rs"

definition regexp_MatchString :: "(re_item \<times> nat) list \<Rightarrow> string \<Rightarrow> bool" where
  "regexp_MatchString pattern s =
     list_all2 item_matches (concat (map (\<lambda>(i, n). replicate n i) pattern)) (runes s)"

definition alnum_upper :: re_item where
  "alnum_upper = Class [(byte CHR ''A'', byte CHR ''Z''), (byte CHR ''0'', byte CHR ''9'')]"

definition hyphen :: re_item where
  "hyphen = Lit (byte CHR ''-'')"

definition code_pattern :: "(re_item \<times> nat) list" where
  "code_pattern = [(alnum_upper, 3), (hyphen, 1), (alnum_upper, 3)]"

definition isValidCodeFormat :: "string \<Rightarrow> bool" where
  "isValidCodeFormat code = regexp_MatchString code_pattern (strings_ToUpper code)"

text \<open>
  The pattern of the specification, \<open>[A-Za-z0-9]{3}-[A-Za-z0-9]{3}\<close>, matched against
  the whole string.
\<close>

definition alnum :: re_item where
  "alnum =
     Class [(byte CHR ''A'', byte CHR ''Z''), (byte CHR ''a'', byte CHR ''z''),
            (byte CHR ''0'', byte CHR ''9'')]"

definition spec_pattern :: "(re_item \<times> nat) list" where
  "spec_pattern = [(alnum, 3), (hyphen, 1), (alnum, 3)]"

definition spec_code_format :: "string \<Rightarrow> bool" where
  "spec_code_format s = regexp_MatchString spec_pattern s"

text \<open>
  The pattern of the specification widened by the two runes that \<open>strings.ToUpper\<close>
  turns into ASCII letters: \<open>[A-Za-z0-9]\<close>, U+0131 or U+017F, three times, a hyphen,
  and three times again.
\<close>

definition alnum_widened :: re_item where
  "alnum_widened =
     Class [(byte CHR ''A'', byte CHR ''Z''), (byte CHR ''a'', byte CHR ''z''),
            (byte CHR ''0'', byte CHR ''9''), (0x0131, 0x0131), (0x017F, 0x017F)]"

definition widened_pattern :: "(re_item \<times> nat) list" where
  "widened_pattern = [(alnum_widened, 3), (hyphen, 1), (alnum_widened, 3)]"

definition widened_code_format :: "string \<Rightarrow> bool" where
  "widened_code_format s = regexp_MatchString widened_pattern s"

text \<open>
  What \<open>utf8.AppendRune\<close> followed by decoding makes of a rune: a surrogate or a value
  beyond U+10FFFF comes back as U+FFFD.
\<close>

definition written_rune :: "rune \<Rightarrow> rune" where
  "written_rune r =
     (if r > 0x10FFFF \<or> (0xD800 \<le> r \<and> r \<le> 0xDFFF) then RuneError else r)"

section \<open>Requests, responses and the outside world\<close>

text \<open>A Go \<open>error\<close> value, by its message.\<close>

datatype error = Err string

text \<open>A JSON value as \<open>encoding/json\<close> reads it into \<open>interface{}\<close>; a number is kept
  as its literal.\<close>

datatype json =
    JNull
  | JBool bool
  | JNumber string
  | JString string
  | JArray "json list"
  | JObject "(string \<times> json) list"

record VideoInfo =
  URL :: string
  Title :: string
  Extension :: string

record StreamRequest =
  req_URL :: string

record AuthRequest =
  Code :: string

record AuthResponse =
  Valid :: bool
  Name :: string
  Error :: string

text \<open>The JSON encoding of the two response structs; \<open>omitempty\<close> drops an empty
  \<open>name\<close> or \<open>error\<close>.\<close>

definition encode_AuthResponse :: "AuthResponse \<Rightarrow> json" where
  "encode_AuthResponse a =
     JObject ([(''valid'', JBool (Valid a))]
       @ (if Name a = [] then [] else [(''name'', JString (Name a))])
       @ (if Error a = [] then [] else [(''error'', JString (Error a))]))"

definition encode_VideoInfo :: "VideoInfo \<Rightarrow> json" where
  "encode_VideoInfo v =
     JObject [(''url'', JString (URL v)), (''title'', JString (Title v)),
              (''ext'', JString (Extension v))]"

text \<open>
  An HTTP request, as far as the handlers read it: \<open>r.Method\<close>, \<open>r.URL.Path\<close>,
  \<open>r.Header.Get\<close>, \<open>r.URL.Query().Get\<close> and \<open>r.Body\<close>.
\<close>

record request =
  Method :: string
  Path :: string
  Header :: "string \<rightharpoonup> string"
  Query :: "string \<rightharpoonup> string"
  Body :: string

definition Header_Get :: "request \<Rightarrow> string \<Rightarrow> string" where
  "Header_Get r k = (case Header r k of None \<Rightarrow> [] | Some v \<Rightarrow> v)"

definition Query_Get :: "request \<Rightarrow> string \<Rightarrow> string" where
  "Query_Get r k = (case Query r k of None \<Rightarrow> [] | Some v \<Rightarrow> v)"

text \<open>
  What a handler leaves in its \<open>http.ResponseWriter\<close>: the status (200 when the handler
  never calls \<open>WriteHeader\<close>), the headers it set, and the body: plain text, an encoded
  JSON value, the bytes of a file, or the number of bytes copied from a subprocess.
\<close>

datatype payload = Text string | Json json | Raw string | Stream nat

record response =
  status :: nat
  headers :: "(string \<times> string) list"
  payload :: payload

text \<open>What a handler does besides answering: log lines and calls to the outside.\<close>

datatype logarg = ArgS string | ArgN nat | ArgE error

datatype event =
    Log string "logarg list"
  | GetItemCalled string string
  | OutputCalled "string list"
  | StartCalled "string list"
  | WaitCalled
  | ReadFileCalled string

type_synonym result = "response \<times> event list"

type_synonym HandlerFunc = "request \<Rightarrow> result"

text \<open>\<open>http.Error\<close>: a plain-text body, the message and a newline, under the given status.\<close>

definition http_Error :: "string \<Rightarrow> nat \<Rightarrow> response" where
  "http_Error msg code =
     \<lparr>status = code,
      headers = [(''Content-Type'', ''text/plain; charset=utf-8''),
                 (''X-Content-Type-Options'', ''nosniff'')],
      payload = Text (msg @ [CHR 0x0A])\<rparr>"

text \<open>\<open>w.Header().Set("Content-Type", "application/json")\<close> followed by
  \<open>json.NewEncoder(w).Encode(v)\<close>.\<close>

definition json_response :: "json \<Rightarrow> response" where
  "json_response j =
     \<lparr>status = 200, headers = [(''Content-Type'', ''application/json'')], payload = Json j\<rparr>"

text \<open>The attribute values of the DynamoDB SDK (\<open>types.AttributeValueMember...\<close>).\<close>

datatype AttributeValue =
    AttributeValueMemberS string
  | AttributeValueMemberN string
  | AttributeValueMemberB string
  | AttributeValueMemberBOOL bool
  | AttributeValueMemberNULL bool
  | AttributeValueMemberSS "string list"
  | AttributeValueMemberNS "string list"
  | AttributeValueMemberBS "string list"
  | AttributeValueMemberL "AttributeValue list"
  | AttributeValueMemberM "(string \<times> AttributeValue) list"

text \<open>
  The store client: \<open>GetItem\<close> on a table and a value of the key \<open>code\<close> fails, or
  returns \<open>result.Item\<close>, which is \<open>nil\<close> (\<open>None\<close>) when the table has no such record.
\<close>

record client =
  GetItem :: "string \<Rightarrow> string \<Rightarrow> error + (string \<rightharpoonup> AttributeValue) option"

text \<open>A parsed URL (\<open>url.URL\<close>), as far as the handlers read it.\<close>

record url_URL =
  Scheme :: string
  Host :: string

text \<open>
  A subprocess started for streaming: the errors of \<open>StdoutPipe\<close>, \<open>StderrPipe\<close>,
  \<open>Start\<close> and \<open>Wait\<close> (\<open>None\<close> for \<open>nil\<close>), the lines it writes to its standard
  error, and what \<open>io.Copy(w, stdout)\<close> returns: the bytes written and its error.
\<close>

record cmd =
  StdoutPipe :: "error option"
  StderrPipe :: "error option"
  Start :: "error option"
  stderr_lines :: "string list"
  io_Copy :: "nat \<times> error option"
  Wait :: "error option"

text \<open>
  The process-wide state set by \<open>initDynamoDB\<close> (\<open>dynamoClient\<close>, \<open>nil\<close> when the AWS
  configuration failed to load, and \<open>tableName\<close>), together with the library and system
  calls the handlers make, each taken as a function of its arguments.
\<close>

record env =
  dynamoClient :: "client option"
  tableName :: string
  json_Decode_AuthRequest :: "string \<Rightarrow> error + AuthRequest"
  json_Decode_StreamRequest :: "string \<Rightarrow> error + StreamRequest"
  url_Parse :: "string \<Rightarrow> error + url_URL"
  cmd_Output :: "string list \<Rightarrow> error + string"
  json_Unmarshal :: "string \<Rightarrow> error + (string \<rightharpoonup> json)"
  exec_Command :: "string list \<Rightarrow> cmd"
  os_ReadFile :: "string \<Rightarrow> error + string"

section \<open>The authorization gate\<close>

text \<open>\<open>validateCode\<close> returns \<open>(valid, name, err)\<close>; the events are its calls to the store.\<close>

definition validateCode :: "env \<Rightarrow> string \<Rightarrow> (bool \<times> string \<times> error option) \<times> event list" where
  "validateCode e code =
     (case dynamoClient e of
        None \<Rightarrow> ((True, ''Local User'', None), [])
      | Some c \<Rightarrow>
          (let code = strings_ToUpper code;
               call = [GetItemCalled (tableName e) code]
           in case GetItem c (tableName e) code of
                Inl err \<Rightarrow> ((False, [], Some err), call)
              | Inr None \<Rightarrow> ((False, [], None), call)
              | Inr (Some item) \<Rightarrow>
                  ((True,
                    (case item ''name'' of
                       Some (AttributeValueMemberS v) \<Rightarrow> v
                     | _ \<Rightarrow> []),
                    None), call)))"

definition withAuth :: "env \<Rightarrow> HandlerFunc \<Rightarrow> HandlerFunc" where
  "withAuth e next r =
     (if dynamoClient e = None then next r
      else
        (let authCode = Header_Get r ''X-Auth-Code'';
             authCode = (if authCode = [] then Query_Get r ''auth'' else authCode)
         in if authCode = [] then
              (http_Error ''Unauthorized: missing auth code'' 401, [])
            else if \<not> isValidCodeFormat authCode then
              (http_Error ''Unauthorized: invalid auth code format'' 401, [])
            else
              (case validateCode e authCode of
                 ((valid, name, Some err), evs) \<Rightarrow>
                   (http_Error ''Internal server error'' 500,
                    evs @ [Log ''Auth validation error: %v'' [ArgE err]])
               | ((valid, name, None), evs) \<Rightarrow>
                   if \<not> valid then (http_Error ''Unauthorized: invalid auth code'' 401, evs)
                   else (fst (next r), evs @ snd (next r)))))"

definition handleAuth :: "env \<Rightarrow> HandlerFunc" where
  "handleAuth e r =
     (if Method r \<noteq> ''POST'' then (http_Error ''Method not allowed'' 405, [])
      else
        (case json_Decode_AuthRequest e (Body r) of
           Inl err \<Rightarrow>
             (json_response (encode_AuthResponse
                \<lparr>Valid = False, Name = [], Error = ''Invalid request body''\<rparr>), [])
         | Inr req \<Rightarrow>
             if Code req = [] then
               (json_response (encode_AuthResponse
                  \<lparr>Valid = False, Name = [], Error = ''Code is required''\<rparr>), [])
             else if \<not> isValidCodeFormat (Code req) then
               (json_response (encode_AuthResponse
                  \<lparr>Valid = False, Name = [],
                   Error = ''Invalid code format. Expected: XXX-XXX''\<rparr>), [])
             else
               (case validateCode e (Code req) of
                  ((valid, name, Some err), evs) \<Rightarrow>
                    (json_response (encode_AuthResponse
                       \<lparr>Valid = False, Name = [], Error = ''Failed to validate code''\<rparr>),
                     evs @ [Log ''DynamoDB error: %v'' [ArgE err]])
                | ((valid, name, None), evs) \<Rightarrow>
                    if \<not> valid then
                      (json_response (encode_AuthResponse
                         \<lparr>Valid = False, Name = [], Error = ''Invalid code''\<rparr>), evs)
                    else
                      (json_response (encode_AuthResponse
                         \<lparr>Valid = True, Name = name, Error = []\<rparr>), evs))))"

section \<open>The static page\<close>

definition serveIndex :: "env \<Rightarrow> HandlerFunc" where
  "serveIndex e r =
     (if Path r \<noteq> ''/'' then (http_Error ''404 page not found'' 404, [])
      else
        (case os_ReadFile e ''static/index.html'' of
           Inl err \<Rightarrow>
             (http_Error ''Internal server error'' 500,
              [ReadFileCalled ''static/index.html'',
               Log ''Error reading index.html: %v'' [ArgE err]])
         | Inr content \<Rightarrow>
             (\<lparr>status = 200, headers = [(''Content-Type'', ''text/html; charset=utf-8'')],
               payload = Raw content\<rparr>,
              [ReadFileCalled ''static/index.html''])))"

section \<open>The metadata resolver\<close>

text \<open>\<open>v, ok := info[k].(string)\<close> with a default: the field when it is a JSON string.\<close>

definition string_field :: "(string \<rightharpoonup> json) \<Rightarrow> string \<Rightarrow> string \<Rightarrow> string" where
  "string_field info k dflt = (case info k of Some (JString v) \<Rightarrow> v | _ \<Rightarrow> dflt)"

definition info_args :: "string \<Rightarrow> string list" where
  "info_args u = [''yt-dlp'', ''-j'', ''--no-warnings'', u]"

definition handleVideoInfo :: "env \<Rightarrow> HandlerFunc" where
  "handleVideoInfo e r =
     (if Method r \<noteq> ''POST'' then (http_Error ''Method not allowed'' 405, [])
      else
        (case json_Decode_StreamRequest e (Body r) of
           Inl err \<Rightarrow> (http_Error ''Invalid request body'' 400, [])
         | Inr req \<Rightarrow>
             if req_URL req = [] then (http_Error ''URL is required'' 400, [])
             else
               (case url_Parse e (req_URL req) of
                  Inl err \<Rightarrow> (http_Error ''Invalid URL format'' 400, [])
                | Inr parsedURL \<Rightarrow>
                    if Scheme parsedURL = [] \<or> Host parsedURL = [] then
                      (http_Error ''Invalid URL format'' 400, [])
                    else if Scheme parsedURL \<noteq> ''http'' \<and> Scheme parsedURL \<noteq> ''https'' then
                      (http_Error ''URL must use http or https scheme'' 400, [])
                    else if \<not> strings_Contains (Host parsedURL) ''instagram.com'' then
                      (http_Error ''URL must be an Instagram URL'' 400, [])
                    else
                      (case cmd_Output e (info_args (req_URL req)) of
                         Inl err \<Rightarrow>
                           (http_Error ''Failed to get video info'' 500,
                            [OutputCalled (info_args (req_URL req)),
                             Log ''yt-dlp error: %v'' [ArgE err]])
                       | Inr output \<Rightarrow>
                           (case json_Unmarshal e output of
                              Inl err \<Rightarrow>
                                (http_Error ''Failed to parse video info'' 500,
                                 [OutputCalled (info_args (req_URL req))])
                            | Inr info \<Rightarrow>
                                (json_response (encode_VideoInfo
                                   \<lparr>URL = string_field info ''url'' [],
                                    Title = string_field info ''title'' ''video'',
                                    Extension = string_field info ''ext'' ''mp4''\<rparr>),
                                 [OutputCalled (info_args (req_URL req))]))))))"

section \<open>The streaming proxy\<close>

definition stream_args :: "string \<Rightarrow> string list" where
  "stream_args u = [''yt-dlp'', ''-o'', ''-'', ''--no-warnings'', ''-f'', ''best'', u]"

text \<open>
  The goroutine started after \<open>cmd.Start\<close> logs every line of the standard error that
  does not contain \<open>[download]\<close>. It runs beside the copy loop; its log lines are placed
  in the trace right after the start.
\<close>

definition stderr_log :: "string list \<Rightarrow> event list" where
  "stderr_log ls =
     map (\<lambda>line. Log ''yt-dlp: %s'' [ArgS line])
       (filter (\<lambda>line. \<not> strings_Contains line ''[download]'') ls)"

definition handleStream :: "env \<Rightarrow> HandlerFunc" where
  "handleStream e r =
     (let instagramURL = Query_Get r ''url'' in
      if instagramURL = [] then (http_Error ''URL parameter is required'' 400, [])
      else
        (let c = exec_Command e (stream_args instagramURL);
             evs = [Log ''Streaming video from: %s'' [ArgS instagramURL]]
         in case StdoutPipe c of
              Some err \<Rightarrow>
                (http_Error ''Failed to start download'' 500,
                 evs @ [Log ''Failed to create stdout pipe: %v'' [ArgE err]])
            | None \<Rightarrow>
                (case StderrPipe c of
                   Some err \<Rightarrow>
                     (http_Error ''Failed to start download'' 500,
                      evs @ [Log ''Failed to create stderr pipe: %v'' [ArgE err]])
                 | None \<Rightarrow>
                     (case Start c of
                        Some err \<Rightarrow>
                          (http_Error ''Failed to start download'' 500,
                           evs @ [StartCalled (stream_args instagramURL),
                                  Log ''Failed to start yt-dlp: %v'' [ArgE err]])
                      | None \<Rightarrow>
                          (let evs = evs @ [StartCalled (stream_args instagramURL)]
                                       @ stderr_log (stderr_lines c);
                               resp = \<lparr>status = 200,
                                       headers = [(''Content-Type'', ''video/mp4''),
                                                  (''Transfer-Encoding'', ''chunked''),
                                                  (''Cache-Control'', ''no-cache'')],
                                       payload = Stream (fst (io_Copy c))\<rparr>
                           in case snd (io_Copy c) of
                                Some err \<Rightarrow>
                                  (resp, evs @ [Log ''Error streaming video: %v'' [ArgE err]])
                              | None \<Rightarrow>
                                  (resp,
                                   evs @ [WaitCalled]
                                     @ (case Wait c of
                                          Some err \<Rightarrow>
                                            [Log ''yt-dlp process error: %v'' [ArgE err]]
                                        | None \<Rightarrow> [])
                                     @ [Log ''Streamed %d bytes'' [ArgN (fst (io_Copy c))]]))))))"

section \<open>The routes\<close>

text \<open>The handlers as \<open>init\<close> and \<open>main\<close> register them, by pattern.\<close>

definition routes :: "env \<Rightarrow> (string \<times> HandlerFunc) list" where
  "routes e =
     [(''/'', serveIndex e),
      (''/api/auth'', handleAuth e),
      (''/api/info'', withAuth e (handleVideoInfo e)),
      (''/api/stream'', withAuth e (handleStream e))]"

section \<open>A concrete deployment\<close>

text \<open>
  One table with the record \<open>XYZ-789\<close> of name \<open>Ada\<close> and the record \<open>ABC-123\<close> of
  no name, a client that reads it, a client
  whose every call fails in transport, and library and system calls fixed on a few
  inputs. The theorems below are instantiated on them.
\<close>

definition demo_table :: "string \<rightharpoonup> (string \<rightharpoonup> AttributeValue)" where
  "demo_table =
     [''XYZ-789'' \<mapsto>
        [''code'' \<mapsto> AttributeValueMemberS ''XYZ-789'',
         ''name'' \<mapsto> AttributeValueMemberS ''Ada''],
      ''ABC-123'' \<mapsto> [''code'' \<mapsto> AttributeValueMemberS ''ABC-123'']]"

definition table_client :: client where
  "table_client =
     \<lparr>GetItem = (\<lambda>t k. if t = ''insta-stream-users'' then Inr (demo_table k)
                         else Inl (Err ''ResourceNotFoundException''))\<rparr>"

definition failing_client :: client where
  "failing_client = \<lparr>GetItem = (\<lambda>t k. Inl (Err ''RequestError: send request failed''))\<rparr>"

definition reel :: string where
  "reel = ''https://www.instagram.com/reel/abc/''"

text \<open>The code \<open>bc-123\<close> after a dotless i (U+0131, in UTF-8 the bytes C4 B1).\<close>

definition dotless_code :: string where
  "dotless_code = CHR 0xC4 # CHR 0xB1 # ''bc-123''"

definition demo_Decode_AuthRequest :: "string \<Rightarrow> error + AuthRequest" where
  \<open>demo_Decode_AuthRequest b =
     (if b = ''{"code":"xyz-789"}'' then Inr \<lparr>Code = ''xyz-789''\<rparr>
      else if b = ''{"code":"XYZ-000"}'' then Inr \<lparr>Code = ''XYZ-000''\<rparr>
      else if b = ''{"code":"AB-123"}'' then Inr \<lparr>Code = ''AB-123''\<rparr>
      else if b = ''{"code":"'' @ dotless_code @ [CHR 0x22, CHR ''}'']
        then Inr \<lparr>Code = dotless_code\<rparr>
      else if b = ''{}'' then Inr \<lparr>Code = []\<rparr>
      else Inl (Err ''invalid character''))\<close>

definition demo_Decode_StreamRequest :: "string \<Rightarrow> error + StreamRequest" where
  \<open>demo_Decode_StreamRequest b =
     (if b = ''{"url":"https://www.instagram.com/reel/abc/"}'' then Inr \<lparr>req_URL = reel\<rparr>
      else if b = ''{"url":"https://example.com/video"}''
        then Inr \<lparr>req_URL = ''https://example.com/video''\<rparr>
      else Inl (Err ''invalid character''))\<close>

definition demo_Parse :: "string \<Rightarrow> error + url_URL" where
  "demo_Parse u =
     (if u = reel then Inr \<lparr>Scheme = ''https'', Host = ''www.instagram.com''\<rparr>
      else if u = ''https://example.com/video''
        then Inr \<lparr>Scheme = ''https'', Host = ''example.com''\<rparr>
      else if u = ''ftp://instagram.com/video''
        then Inr \<lparr>Scheme = ''ftp'', Host = ''instagram.com''\<rparr>
      else Inl (Err ''parse: invalid URL''))"

definition demo_Output :: "string list \<Rightarrow> error + string" where
  \<open>demo_Output args =
     (if args = info_args reel then Inr ''{"title":"t1"}'' else Inl (Err ''exit status 1''))\<close>

definition demo_Unmarshal :: "string \<Rightarrow> error + (string \<rightharpoonup> json)" where
  \<open>demo_Unmarshal out =
     (if out = ''{"title":"t1"}'' then Inr [''title'' \<mapsto> JString ''t1'']
      else Inl (Err ''unexpected end of JSON input''))\<close>

text \<open>
  The tool started on \<open>reel\<close> writes 4096 bytes before the client goes away and the copy
  fails; started on anything else it writes nothing and exits with status 1.
\<close>

definition demo_Command :: "string list \<Rightarrow> cmd" where
  "demo_Command args =
     (if args = stream_args reel then
        \<lparr>StdoutPipe = None, StderrPipe = None, Start = None,
         stderr_lines = [''[download] 10% of 1.00MiB''],
         io_Copy = (4096, Some (Err ''write: broken pipe'')), Wait = None\<rparr>
      else
        \<lparr>StdoutPipe = None, StderrPipe = None, Start = None,
         stderr_lines = [''ERROR: Unsupported URL''],
         io_Copy = (0, None), Wait = Some (Err ''exit status 1'')\<rparr>)"

definition demo_env :: "client option \<Rightarrow> env" where
  "demo_env c =
     \<lparr>dynamoClient = c,
      tableName = ''insta-stream-users'',
      json_Decode_AuthRequest = demo_Decode_AuthRequest,
      json_Decode_StreamRequest = demo_Decode_StreamRequest,
      url_Parse = demo_Parse,
      cmd_Output = demo_Output,
      json_Unmarshal = demo_Unmarshal,
      exec_Command = demo_Command,
      os_ReadFile = (\<lambda>f. Inl (Err ''open static/index.html: no such file or directory''))\<rparr>"

definition get_stream :: "string \<Rightarrow> request" where
  "get_stream u =
     \<lparr>Method = ''GET'', Path = ''/api/stream'', Header = Map.empty,
      Query = [''url'' \<mapsto> u], Body = []\<rparr>"

definition post :: "string \<Rightarrow> (string \<rightharpoonup> string) \<Rightarrow> string \<Rightarrow> request" where
  "post p h b = \<lparr>Method = ''POST'', Path = p, Header = h, Query = Map.empty, Body = b\<rparr>"

text \<open>
  The URLs the specification refuses: one that does not parse, one without scheme or host,
  one of a scheme other than \<open>http\<close> and \<open>https\<close>, one whose host does not contain
  \<open>instagram.com\<close>.
\<close>

definition refused_URL :: "env \<Rightarrow> string \<Rightarrow> bool" where
  "refused_URL e u =
     (case url_Parse e u of
        Inl err \<Rightarrow> True
      | Inr p \<Rightarrow>
          Scheme p = [] \<or> Host p = []
          \<or> (Scheme p \<noteq> ''http'' \<and> Scheme p \<noteq> ''https'')
          \<or> \<not> strings_Contains (Host p) ''instagram.com'')"

section \<open>Decoding what \<open>EncodeRune\<close> wrote\<close>

lemma byte_chr: "n < 256 \<Longrightarrow> byte (chr n) = n"
  by (simp add: byte_def chr_def)

lemma mod_window:
  fixes x :: nat
  assumes "k * n \<le> x" "x < k * n + n"
  shows "x mod n = x - k * n"
proof -
  have "x = k * n + (x - k * n)"
    using assms by simp
  then have "x mod n = (x - k * n) mod n"
    by (metis mod_mult_self3)
  also have "\<dots> = x - k * n"
    using assms by simp
  finally show ?thesis .
qed

lemma split3:
  fixes r :: nat
  shows "r div 4096 * 4096 + (r div 64 mod 64 * 64 + r mod 64) = r"
proof -
  define a where "a = r div 64"
  define b where "b = a div 64"
  define am where "am = a mod 64"
  define rm where "rm = r mod 64"
  have b: "r div 4096 = b"
    by (simp add: a_def b_def div_mult2_eq)
  have "b * 64 + am = a"
    unfolding b_def am_def by (rule div_mult_mod_eq)
  moreover have "a * 64 + rm = r"
    unfolding a_def rm_def by (rule div_mult_mod_eq)
  ultimately have "b * 4096 + (am * 64 + rm) = r"
    by linarith
  then show ?thesis
    unfolding b a_def [symmetric] am_def [symmetric] rm_def [symmetric] .
qed

lemma split4:
  fixes r :: nat
  shows "r div 262144 * 262144 + (r div 4096 mod 64 * 4096 + (r div 64 mod 64 * 64 + r mod 64)) = r"
proof -
  define a where "a = r div 64"
  define b where "b = a div 64"
  define c where "c = b div 64"
  define am where "am = a mod 64"
  define bm where "bm = b mod 64"
  define rm where "rm = r mod 64"
  have b: "r div 4096 = b"
    by (simp add: a_def b_def div_mult2_eq)
  have c: "r div 262144 = c"
    by (simp add: a_def b_def c_def div_mult2_eq)
  have "c * 64 + bm = b"
    unfolding c_def bm_def by (rule div_mult_mod_eq)
  moreover have "b * 64 + am = a"
    unfolding b_def am_def by (rule div_mult_mod_eq)
  moreover have "a * 64 + rm = r"
    unfolding a_def rm_def by (rule div_mult_mod_eq)
  ultimately have "c * 262144 + (bm * 4096 + (am * 64 + rm)) = r"
    by linarith
  then show ?thesis
    unfolding b c a_def [symmetric] am_def [symmetric] bm_def [symmetric] rm_def [symmetric] .
qed

text \<open>A continuation byte \<open>0x80 + m\<close> carries the six bits \<open>m\<close>.\<close>

lemma cont_byte:
  assumes "m < 64"
  shows "byte (chr (0x80 + m)) = 128 + m" and "inRange 0x80 0xBF (chr (0x80 + m))"
    and "low6 (chr (0x80 + m)) = m"
proof -
  show b: "byte (chr (0x80 + m)) = 128 + m"
    using assms by (simp add: byte_chr)
  show "inRange 0x80 0xBF (chr (0x80 + m))"
    using assms by (simp add: inRange_def b)
  show "low6 (chr (0x80 + m)) = m"
    using assms mod_window [of 2 64 "128 + m"] by (simp add: low6_def b)
qed

lemma decode_two:
  assumes "0x7F < r" "r \<le> 0x7FF"
  shows "DecodeRuneInString (chr (0xC0 + r div 64) # chr (0x80 + r mod 64) # t) = (r, 2)"
proof -
  define q where "q = r div 64"
  define m where "m = r mod 64"
  have q: "2 \<le> q" "q < 32"
    using assms by (simp_all add: q_def less_eq_div_iff_mult_less_eq less_mult_imp_div_less)
  have m: "m < 64"
    by (simp add: m_def)
  have r: "q * 64 + m = r"
    unfolding q_def m_def by (rule div_mult_mod_eq)
  have b0: "byte (chr (0xC0 + q)) = 192 + q"
    using q by (simp add: byte_chr)
  have x: "(192 + q) mod 32 = q"
    using q mod_window [of 6 32 "192 + q"] by simp
  have "DecodeRuneInString (chr (0xC0 + q) # chr (0x80 + m) # t) = (q * 64 + m, 2)"
    using q by (simp add: DecodeRuneInString_def b0 x RuneSelf_def cont_byte [OF m])
  then show ?thesis
    unfolding r unfolding q_def m_def .
qed

lemma decode_three:
  assumes "0x7FF < r" "r \<le> 0xFFFF" "\<not> (0xD800 \<le> r \<and> r \<le> 0xDFFF)"
  shows "DecodeRuneInString
      (chr (0xE0 + r div 4096) # chr (0x80 + r div 64 mod 64) # chr (0x80 + r mod 64) # t)
    = (r, 3)"
proof -
  define q where "q = r div 4096"
  define a where "a = r div 64"
  define m1 where "m1 = a mod 64"
  define m2 where "m2 = r mod 64"
  have q: "q < 16"
    using assms by (simp add: q_def less_mult_imp_div_less)
  have m: "m1 < 64" "m2 < 64"
    by (simp_all add: m1_def m2_def)
  have r: "q * 4096 + (m1 * 64 + m2) = r"
    unfolding q_def m1_def m2_def a_def by (rule split3)
  have qa: "q * 64 + m1 = a"
  proof -
    have "q = a div 64"
      unfolding q_def a_def by (simp add: div_mult2_eq)
    then show ?thesis
      unfolding m1_def by (simp only: div_mult_mod_eq)
  qed
  have lo: "32 \<le> m1" if "q = 0"
  proof -
    have "32 \<le> a"
      using assms by (simp add: a_def less_eq_div_iff_mult_less_eq)
    with qa that show ?thesis by simp
  qed
  have hi: "m1 < 32" if "q = 13"
  proof -
    from assms that have "r < 0xD800"
      using r m by simp
    then have "a < 864"
      by (simp add: a_def less_mult_imp_div_less)
    with qa that show ?thesis by simp
  qed
  have b0: "byte (chr (0xE0 + q)) = 224 + q"
    using q by (simp add: byte_chr)
  have x: "(224 + q) mod 16 = q"
    using q mod_window [of 14 16 "224 + q"] by simp
  have acc: "inRange (acceptLo (224 + q)) (acceptHi (224 + q)) (chr (0x80 + m1))"
    using q m lo hi
    by (auto simp add: inRange_def acceptLo_def acceptHi_def cont_byte(1) [OF m(1)])
  have "DecodeRuneInString (chr (0xE0 + q) # chr (0x80 + m1) # chr (0x80 + m2) # t)
      = (q * 4096 + (m1 * 64 + m2), 3)"
    using q acc
    by (simp add: DecodeRuneInString_def b0 x RuneSelf_def cont_byte [OF m(1)]
        cont_byte [OF m(2)] add.assoc)
  then show ?thesis
    unfolding r unfolding q_def m1_def m2_def a_def .
qed

lemma decode_four:
  assumes "0xFFFF < r" "r \<le> 0x10FFFF"
  shows "DecodeRuneInString
      (chr (0xF0 + r div 262144) # chr (0x80 + r div 4096 mod 64)
       # chr (0x80 + r div 64 mod 64) # chr (0x80 + r mod 64) # t)
    = (r, 4)"
proof -
  define q where "q = r div 262144"
  define b where "b = r div 4096"
  define m1 where "m1 = b mod 64"
  define m2 where "m2 = r div 64 mod 64"
  define m3 where "m3 = r mod 64"
  have q: "q \<le> 4"
  proof -
    from assms have "r < 5 * 262144" by simp
    then have "q < 5"
      unfolding q_def by (rule less_mult_imp_div_less)
    then show ?thesis by simp
  qed
  have m: "m1 < 64" "m2 < 64" "m3 < 64"
    by (simp_all add: m1_def m2_def m3_def)
  have r: "q * 262144 + (m1 * 4096 + (m2 * 64 + m3)) = r"
    unfolding q_def m1_def m2_def m3_def b_def by (rule split4)
  have qb: "q * 64 + m1 = b"
  proof -
    have "q = b div 64"
      unfolding q_def b_def by (simp add: div_mult2_eq)
    then show ?thesis
      unfolding m1_def by (simp only: div_mult_mod_eq)
  qed
  have lo: "16 \<le> m1" if "q = 0"
  proof -
    have "16 \<le> b"
      using assms by (simp add: b_def less_eq_div_iff_mult_less_eq)
    with qb that show ?thesis by simp
  qed
  have hi: "m1 < 16" if "q = 4"
  proof -
    from assms have "r < 272 * 4096" by simp
    then have "b < 272"
      unfolding b_def by (rule less_mult_imp_div_less)
    with qb that show ?thesis by simp
  qed
  have b0: "byte (chr (0xF0 + q)) = 240 + q"
    using q by (simp add: byte_chr)
  have x: "(240 + q) mod 8 = q"
    using q mod_window [of 30 8 "240 + q"] by simp
  have acc: "inRange (acceptLo (240 + q)) (acceptHi (240 + q)) (chr (0x80 + m1))"
    using q m lo hi
    by (auto simp add: inRange_def acceptLo_def acceptHi_def cont_byte(1) [OF m(1)])
  have "DecodeRuneInString
      (chr (0xF0 + q) # chr (0x80 + m1) # chr (0x80 + m2) # chr (0x80 + m3) # t)
      = (q * 262144 + (m1 * 4096 + (m2 * 64 + m3)), 4)"
    using q acc
    by (simp add: DecodeRuneInString_def b0 x RuneSelf_def cont_byte [OF m(1)]
        cont_byte [OF m(2)] cont_byte [OF m(3)] add.assoc)
  then show ?thesis
    unfolding r unfolding q_def m1_def m2_def m3_def b_def .
qed

lemma decode_RuneError:
  "DecodeRuneInString (chr 0xEF # chr 0xBF # chr 0xBD # t) = (RuneError, 3)"
  by (simp add: DecodeRuneInString_def byte_chr RuneSelf_def RuneError_def inRange_def
      low6_def acceptLo_def acceptHi_def)

lemma DecodeRuneInString_EncodeRune:
  "DecodeRuneInString (EncodeRune r @ t) = (written_rune r, length (EncodeRune r))"
proof -
  consider (one) "r \<le> 0x7F" | (two) "0x7F < r" "r \<le> 0x7FF"
    | (bad) "0x7FF < r" "r > 0x10FFFF \<or> (0xD800 \<le> r \<and> r \<le> 0xDFFF)"
    | (three) "0x7FF < r" "r \<le> 0xFFFF" "\<not> (0xD800 \<le> r \<and> r \<le> 0xDFFF)"
    | (four) "0xFFFF < r" "r \<le> 0x10FFFF"
    by linarith
  then show ?thesis
  proof cases
    case one
    then show ?thesis
      by (simp add: EncodeRune_def written_rune_def DecodeRuneInString_def byte_chr RuneSelf_def)
  next
    case two
    then show ?thesis
      using decode_two [of r t] by (simp add: EncodeRune_def written_rune_def)
  next
    case bad
    then show ?thesis
      using decode_RuneError [of t] by (auto simp add: EncodeRune_def written_rune_def)
  next
    case three
    then show ?thesis
      using decode_three [of r t] by (auto simp add: EncodeRune_def written_rune_def)
  next
    case four
    then show ?thesis
      using decode_four [of r t] by (simp add: EncodeRune_def written_rune_def)
  qed
qed

lemma EncodeRune_not_Nil: "EncodeRune r \<noteq> []"
  by (simp add: EncodeRune_def)

lemma runes_EncodeRune: "runes (EncodeRune r @ t) = written_rune r # runes t"
  by (subst runes.simps) (simp add: DecodeRuneInString_EncodeRune EncodeRune_not_Nil)

lemma runes_Nil: "runes [] = []"
  by (simp add: runes.simps)

lemma runes_concat_EncodeRune:
  "runes (concat (map (\<lambda>c. EncodeRune (f c)) rs)) = map (\<lambda>c. written_rune (f c)) rs"
  by (induction rs) (simp_all add: runes_Nil runes_EncodeRune)

lemma runes_strings_Map:
  "runes (strings_Map f s) = map (\<lambda>c. written_rune (f c)) (runes s)"
  by (simp add: strings_Map_def runes_concat_EncodeRune)

section \<open>Upper-casing, rune by rune\<close>

lemma runes_ascii_Cons:
  "byte c < RuneSelf \<Longrightarrow> runes (c # s) = byte c # runes s"
  by (subst runes.simps) (simp add: DecodeRuneInString_def)

lemma runes_isASCII: "isASCII s \<Longrightarrow> runes s = map byte s"
  by (induction s) (simp_all add: runes_Nil runes_ascii_Cons isASCII_def)

lemma byte_upper_byte:
  "byte (upper_byte c) = (if 97 \<le> byte c \<and> byte c \<le> 122 then byte c - 32 else byte c)"
proof -
  have "byte c < 256"
    by (simp add: byte_def)
  then show ?thesis
    by (simp add: upper_byte_def byte_chr)
qed

lemma isASCII_upper: "isASCII s \<Longrightarrow> isASCII (map upper_byte s)"
  by (induction s) (auto simp: isASCII_def byte_upper_byte RuneSelf_def)

lemma written_rune_ascii: "r < 128 \<Longrightarrow> written_rune r = r"
  by (simp add: written_rune_def)

lemma written_rune_not_ascii: "128 \<le> r \<Longrightarrow> 128 \<le> written_rune r"
  by (simp add: written_rune_def RuneError_def)

lemma unicode_ToUpper_ascii:
  "r < 128 \<Longrightarrow> unicode_ToUpper r = (if 97 \<le> r \<and> r \<le> 122 then r - 32 else r)"
  by (simp add: unicode_ToUpper_def)

lemma unicode_ToUpper_ascii_less: "r < 128 \<Longrightarrow> unicode_ToUpper r < 128"
  by (auto simp add: unicode_ToUpper_ascii)

lemma runes_ToUpper_isASCII:
  assumes "isASCII s"
  shows "runes (strings_ToUpper s) = map (\<lambda>r. written_rune (unicode_ToUpper r)) (runes s)"
proof -
  have "byte (upper_byte c) = written_rune (unicode_ToUpper (byte c))" if "byte c < 128" for c
    using that
    by (simp add: written_rune_ascii unicode_ToUpper_ascii_less)
      (simp add: unicode_ToUpper_ascii byte_upper_byte)
  then have "map (\<lambda>c. byte (upper_byte c)) s =
      map (\<lambda>c. written_rune (unicode_ToUpper (byte c))) s"
    using assms by (simp add: isASCII_def RuneSelf_def list_all_iff)
  with assms show ?thesis
    by (simp add: strings_ToUpper_def runes_isASCII isASCII_upper comp_def)
qed

lemma runes_ToUpper:
  "runes (strings_ToUpper s) = map (\<lambda>r. written_rune (unicode_ToUpper r)) (runes s)"
proof (cases "isASCII s")
  case True
  then show ?thesis by (rule runes_ToUpper_isASCII)
next
  case False
  then show ?thesis
    by (simp add: strings_ToUpper_def runes_strings_Map)
qed

text \<open>
  No row of the table but those of U+0131 and U+017F leads below U+0080: a row adds a
  delta to runes from \<open>Lo\<close> on, or clears a bit of the offset from \<open>Lo\<close>.
\<close>

lemma to_UpperCase_not_ascii:
  assumes "list_all (\<lambda>(lo, hi, d). (lo = hi \<and> (lo = 0x0131 \<or> lo = 0x017F))
      \<or> (case d of UpperLower \<Rightarrow> 128 \<le> lo | Delta k \<Rightarrow> 128 \<le> int lo + k)) caseRange"
    and "r \<noteq> 0x0131" and "r \<noteq> 0x017F" and "128 \<le> r"
  shows "128 \<le> to_UpperCase caseRange r"
  using assms
proof (induction caseRange)
  case Nil
  then show ?case by simp
next
  case (Cons row caseRange)
  obtain lo hi d where row: "row = (lo, hi, d)"
    by (cases row)
  show ?case
  proof (cases "lo \<le> r \<and> r \<le> hi")
    case True
    with Cons.prems row show ?thesis
      by (cases d) auto
  next
    case False
    with Cons row show ?thesis
      by auto
  qed
qed

lemma CaseRanges_not_ascii:
  "list_all (\<lambda>(lo, hi, d). (lo = hi \<and> (lo = 0x0131 \<or> lo = 0x017F))
      \<or> (case d of UpperLower \<Rightarrow> 128 \<le> lo | Delta k \<Rightarrow> 128 \<le> int lo + k)) CaseRanges"
  by (simp add: CaseRanges_def)

lemma unicode_ToUpper_not_ascii:
  assumes "128 \<le> r" and "r \<noteq> 0x0131" and "r \<noteq> 0x017F"
  shows "128 \<le> unicode_ToUpper r"
  using assms to_UpperCase_not_ascii [OF CaseRanges_not_ascii, of r]
  by (simp add: unicode_ToUpper_def)

lemma unicode_ToUpper_dotless_i: "unicode_ToUpper 0x0131 = 0x49"
  by (simp add: unicode_ToUpper_def CaseRanges_def)

lemma unicode_ToUpper_long_s: "unicode_ToUpper 0x017F = 0x53"
  by (simp add: unicode_ToUpper_def CaseRanges_def)

lemma unicode_ToUpper_examples:
  "unicode_ToUpper 0x0101 = 0x0100" "unicode_ToUpper 0x03B1 = 0x0391"
  "unicode_ToUpper 0x0430 = 0x0410" "unicode_ToUpper 0x00E9 = 0x00C9"
  "unicode_ToUpper 0x212A = 0x212A" "unicode_ToUpper 0x00DF = 0x00DF"
  by (simp_all add: unicode_ToUpper_def CaseRanges_def)

section \<open>What the validator accepts\<close>

lemma code_items:
  "concat (map (\<lambda>(i, n). replicate n i) code_pattern) =
     [alnum_upper, alnum_upper, alnum_upper, hyphen, alnum_upper, alnum_upper, alnum_upper]"
  by (simp add: code_pattern_def numeral_3_eq_3)

lemma spec_items:
  "concat (map (\<lambda>(i, n). replicate n i) spec_pattern) =
     [alnum, alnum, alnum, hyphen, alnum, alnum, alnum]"
  by (simp add: spec_pattern_def numeral_3_eq_3)

lemma widened_items:
  "concat (map (\<lambda>(i, n). replicate n i) widened_pattern) =
     [alnum_widened, alnum_widened, alnum_widened, hyphen,
      alnum_widened, alnum_widened, alnum_widened]"
  by (simp add: widened_pattern_def numeral_3_eq_3)

lemma alnum_upper_matches:
  "item_matches alnum_upper r = (65 \<le> r \<and> r \<le> 90 \<or> 48 \<le> r \<and> r \<le> 57)"
  by (simp add: alnum_upper_def byte_def)

lemma alnum_matches:
  "item_matches alnum r =
     (65 \<le> r \<and> r \<le> 90 \<or> 97 \<le> r \<and> r \<le> 122 \<or> 48 \<le> r \<and> r \<le> 57)"
  by (simp add: alnum_def byte_def)

lemma alnum_widened_matches:
  "item_matches alnum_widened r = (item_matches alnum r \<or> r = 0x0131 \<or> r = 0x017F)"
  by (auto simp add: alnum_widened_def alnum_def)

lemma hyphen_matches: "item_matches hyphen r = (r = 45)"
  by (simp add: hyphen_def byte_def)

lemma class_upper:
  "item_matches alnum_upper (written_rune (unicode_ToUpper r)) = item_matches alnum_widened r"
proof -
  consider (ascii) "r < 128" | (dotless) "r = 0x0131" | (long_s) "r = 0x017F"
    | (other) "128 \<le> r" "r \<noteq> 0x0131" "r \<noteq> 0x017F"
    by linarith
  then show ?thesis
  proof cases
    case ascii
    then have "written_rune (unicode_ToUpper r) = (if 97 \<le> r \<and> r \<le> 122 then r - 32 else r)"
      using unicode_ToUpper_ascii_less [of r]
      by (simp add: written_rune_ascii unicode_ToUpper_ascii)
    with ascii show ?thesis
      unfolding alnum_widened_matches alnum_matches alnum_upper_matches
      by (cases "97 \<le> r \<and> r \<le> 122") auto
  next
    case dotless
    then show ?thesis
      by (simp add: unicode_ToUpper_dotless_i written_rune_ascii alnum_widened_matches
          alnum_upper_matches)
  next
    case long_s
    then show ?thesis
      by (simp add: unicode_ToUpper_long_s written_rune_ascii alnum_widened_matches
          alnum_upper_matches)
  next
    case other
    then have "128 \<le> written_rune (unicode_ToUpper r)"
      by (intro written_rune_not_ascii unicode_ToUpper_not_ascii)
    with other show ?thesis
      by (simp add: alnum_widened_matches alnum_matches alnum_upper_matches)
  qed
qed

lemma lit_upper:
  "item_matches hyphen (written_rune (unicode_ToUpper r)) = item_matches hyphen r"
proof -
  consider (ascii) "r < 128" | (dotless) "r = 0x0131" | (long_s) "r = 0x017F"
    | (other) "128 \<le> r" "r \<noteq> 0x0131" "r \<noteq> 0x017F"
    by linarith
  then show ?thesis
  proof cases
    case ascii
    then have "written_rune (unicode_ToUpper r) = (if 97 \<le> r \<and> r \<le> 122 then r - 32 else r)"
      using unicode_ToUpper_ascii_less [of r]
      by (simp add: written_rune_ascii unicode_ToUpper_ascii)
    with ascii show ?thesis
      unfolding hyphen_matches
      by (cases "97 \<le> r \<and> r \<le> 122") auto
  next
    case dotless
    then show ?thesis
      by (simp add: unicode_ToUpper_dotless_i written_rune_ascii hyphen_matches)
  next
    case long_s
    then show ?thesis
      by (simp add: unicode_ToUpper_long_s written_rune_ascii hyphen_matches)
  next
    case other
    then have "128 \<le> written_rune (unicode_ToUpper r)"
      by (intro written_rune_not_ascii unicode_ToUpper_not_ascii)
    with other show ?thesis
      by (simp add: hyphen_matches)
  qed
qed

lemma list_all2_pointwise:
  "list_all2 (\<lambda>i j. \<forall>c. R c \<longrightarrow> P i c = Q j c) xs ys \<Longrightarrow> list_all R s
     \<Longrightarrow> list_all2 P xs s = list_all2 Q ys s"
proof (induction xs ys arbitrary: s rule: list_all2_induct)
  case Nil
  then show ?case by simp
next
  case (Cons x xs y ys)
  then show ?case by (cases s) simp_all
qed

lemma isValidCodeFormat_widened: "isValidCodeFormat s = widened_code_format s"
proof -
  have "isValidCodeFormat s =
      list_all2 (\<lambda>i r. item_matches i (written_rune (unicode_ToUpper r)))
        (concat (map (\<lambda>(i, n). replicate n i) code_pattern)) (runes s)"
    by (simp add: isValidCodeFormat_def regexp_MatchString_def runes_ToUpper list_all2_map2)
  also have "\<dots> =
      list_all2 item_matches (concat (map (\<lambda>(i, n). replicate n i) widened_pattern)) (runes s)"
    unfolding code_items widened_items
    by (rule list_all2_pointwise [where R = "\<lambda>r. True"])
      (simp_all add: class_upper lit_upper list_all_iff)
  also have "\<dots> = widened_code_format s"
    by (simp add: widened_code_format_def regexp_MatchString_def)
  finally show ?thesis .
qed

lemma widened_code_format_isASCII:
  assumes "isASCII s"
  shows "widened_code_format s = spec_code_format s"
proof -
  have ascii: "list_all (\<lambda>r. r < 128) (runes s)"
    using assms by (simp add: runes_isASCII isASCII_def RuneSelf_def list_all_iff)
  have "list_all2 item_matches (concat (map (\<lambda>(i, n). replicate n i) widened_pattern)) (runes s)
      = list_all2 item_matches (concat (map (\<lambda>(i, n). replicate n i) spec_pattern)) (runes s)"
    unfolding widened_items spec_items
    by (rule list_all2_pointwise [OF _ ascii]) (simp add: alnum_widened_matches)
  then show ?thesis
    by (simp add: widened_code_format_def spec_code_format_def regexp_MatchString_def)
qed

lemma isValidCodeFormat_isASCII:
  "isASCII s \<Longrightarrow> isValidCodeFormat s = spec_code_format s"
  by (simp add: isValidCodeFormat_widened widened_code_format_isASCII)

section \<open>A string that matches the pattern is ASCII\<close>

lemma two_byte_rune:
  fixes x :: nat
  assumes "0xC2 \<le> x" "x \<le> 0xDF"
  shows "128 \<le> x mod 32 * 64 + y"
proof -
  have "x mod 32 = x - 192"
    using mod_window [of 6 32 x] assms by simp
  with assms show ?thesis by simp
qed

lemma three_byte_rune:
  fixes x :: nat
  assumes "0xE0 \<le> x" "x < 0xF0" "acceptLo x \<le> b" "b \<le> acceptHi x"
  shows "128 \<le> x mod 16 * 4096 + (b mod 64 * 64 + z)"
proof -
  have x: "x mod 16 = x - 224"
    using mod_window [of 14 16 x] assms by simp
  have "128 \<le> b" "b \<le> 191"
    using assms by (simp_all add: acceptLo_def acceptHi_def split: if_splits)
  then have b: "b mod 64 = b - 128"
    using mod_window [of 2 64 b] by simp
  show ?thesis
    using assms unfolding x b
    by (cases "x = 224") (simp_all add: acceptLo_def)
qed

lemma four_byte_rune:
  fixes x :: nat
  assumes "0xF0 \<le> x" "x \<le> 0xF4" "acceptLo x \<le> b" "b \<le> acceptHi x"
  shows "128 \<le> x mod 8 * 262144 + (b mod 64 * 4096 + z)"
proof -
  have x: "x mod 8 = x - 240"
    using mod_window [of 30 8 x] assms by simp
  have "128 \<le> b" "b \<le> 191"
    using assms by (simp_all add: acceptLo_def acceptHi_def split: if_splits)
  then have b: "b mod 64 = b - 128"
    using mod_window [of 2 64 b] by simp
  show ?thesis
    using assms unfolding x b
    by (cases "x = 240") (simp_all add: acceptLo_def)
qed


lemma DecodeRuneInString_not_ascii:
  assumes "RuneSelf \<le> byte c"
  shows "RuneSelf \<le> fst (DecodeRuneInString (c # s))"
proof -
  consider (two) "0xC2 \<le> byte c" "byte c \<le> 0xDF"
    | (three) "0xE0 \<le> byte c" "byte c < 0xF0"
    | (four) "0xF0 \<le> byte c" "byte c \<le> 0xF4"
    | (bad) "byte c < 0xC2 \<or> 0xF4 < byte c"
    by linarith
  then show ?thesis
  proof cases
    case two
    then show ?thesis
      by (simp add: DecodeRuneInString_def RuneSelf_def RuneError_def inRange_def low6_def
          Let_def add.assoc two_byte_rune split: list.split)
  next
    case three
    then show ?thesis
      by (simp add: DecodeRuneInString_def RuneSelf_def RuneError_def inRange_def low6_def
          Let_def add.assoc three_byte_rune split: list.split)
  next
    case four
    then show ?thesis
      by (simp add: DecodeRuneInString_def RuneSelf_def RuneError_def inRange_def low6_def
          Let_def add.assoc four_byte_rune split: list.split)
  next
    case bad
    with assms show ?thesis
      by (auto simp add: DecodeRuneInString_def RuneSelf_def RuneError_def)
  qed
qed

lemma DecodeRuneInString_ascii:
  assumes "fst (DecodeRuneInString (c # s)) < RuneSelf"
  shows "byte c < RuneSelf"
  using assms DecodeRuneInString_not_ascii [of c s] by linarith

lemma runes_ascii_isASCII:
  "list_all (\<lambda>r. r < RuneSelf) (runes s) \<Longrightarrow> isASCII s"
proof (induction s)
  case Nil
  then show ?case by (simp add: isASCII_def)
next
  case (Cons c s)
  from Cons.prems have "fst (DecodeRuneInString (c # s)) < RuneSelf"
    by (subst (asm) runes.simps) simp
  then have c: "byte c < RuneSelf"
    by (rule DecodeRuneInString_ascii)
  with Cons.prems have "list_all (\<lambda>r. r < RuneSelf) (runes s)"
    by (simp add: runes_ascii_Cons)
  with Cons.IH c show ?case
    by (simp add: isASCII_def)
qed

lemma list_all2_list_all:
  "list_all2 Q xs ys \<Longrightarrow> (\<And>x y. x \<in> set xs \<Longrightarrow> Q x y \<Longrightarrow> P y) \<Longrightarrow> list_all P ys"
  by (induction rule: list_all2_induct) auto

lemma spec_code_format_isASCII:
  assumes "spec_code_format s"
  shows "isASCII s"
proof -
  from assms have "list_all2 item_matches
      (concat (map (\<lambda>(i, n). replicate n i) spec_pattern)) (runes s)"
    by (simp add: spec_code_format_def regexp_MatchString_def)
  then have "list_all (\<lambda>r. r < RuneSelf) (runes s)"
  proof (rule list_all2_list_all)
    fix x y
    assume "x \<in> set (concat (map (\<lambda>(i, n). replicate n i) spec_pattern))"
      and "item_matches x y"
    then show "y < RuneSelf"
      unfolding spec_items
      by (auto simp: alnum_matches hyphen_matches RuneSelf_def)
  qed
  then show ?thesis
    by (rule runes_ascii_isASCII)
qed

section \<open>Evaluations on the concrete deployment\<close>

lemma runes_two_bytes:
  assumes "0xC2 \<le> byte c0" and "byte c0 \<le> 0xDF" and "inRange 0x80 0xBF c1"
  shows "runes (c0 # c1 # s) = (byte c0 mod 32 * 64 + low6 c1) # runes s"
  using assms by (subst runes.simps) (simp add: DecodeRuneInString_def RuneSelf_def)

lemma runes_bad_byte:
  assumes "0xF4 < byte c"
  shows "runes (c # s) = RuneError # runes s"
  using assms by (subst runes.simps) (simp add: DecodeRuneInString_def RuneSelf_def)

lemma spec_code_format_runes:
  "spec_code_format s =
     list_all2 item_matches [alnum, alnum, alnum, hyphen, alnum, alnum, alnum] (runes s)"
  by (simp add: spec_code_format_def regexp_MatchString_def spec_items)

lemma widened_code_format_runes:
  "widened_code_format s =
     list_all2 item_matches
       [alnum_widened, alnum_widened, alnum_widened, hyphen,
        alnum_widened, alnum_widened, alnum_widened] (runes s)"
  by (simp add: widened_code_format_def regexp_MatchString_def widened_items)

lemmas runes_eval =
  runes_ascii_Cons runes_two_bytes runes_bad_byte runes_Nil byte_def RuneSelf_def
  RuneError_def inRange_def low6_def

lemmas match_eval =
  spec_code_format_runes widened_code_format_runes alnum_widened_matches alnum_matches
  hyphen_matches

lemma upper_xyz: "strings_ToUpper ''xyz-789'' = ''XYZ-789''"
  by (simp add: strings_ToUpper_def isASCII_def byte_def RuneSelf_def upper_byte_def chr_def
      char_of_eq_iff)

lemma upper_XYZ000: "strings_ToUpper ''XYZ-000'' = ''XYZ-000''"
  by (simp add: strings_ToUpper_def isASCII_def byte_def RuneSelf_def upper_byte_def chr_def
      char_of_eq_iff)

lemma upper_ABC123: "strings_ToUpper ''ABC-123'' = ''ABC-123''"
  by (simp add: strings_ToUpper_def isASCII_def byte_def RuneSelf_def upper_byte_def chr_def
      char_of_eq_iff)

lemma valid_xyz: "isValidCodeFormat ''xyz-789''"
  by (simp add: isValidCodeFormat_widened match_eval runes_eval)

lemma valid_XYZ000: "isValidCodeFormat ''XYZ-000''"
  by (simp add: isValidCodeFormat_widened match_eval runes_eval)

lemma invalid_AB123: "\<not> isValidCodeFormat ''AB-123''"
  by (simp add: isValidCodeFormat_widened match_eval runes_eval)

lemma runes_dotless: "runes dotless_code = [0x0131, 98, 99, 45, 49, 50, 51]"
  by (simp add: dotless_code_def runes_eval)

lemma valid_dotless: "isValidCodeFormat dotless_code"
  by (simp add: isValidCodeFormat_widened match_eval runes_dotless)

lemma not_spec_dotless: "\<not> spec_code_format dotless_code"
  by (simp add: match_eval runes_dotless)

lemma not_isASCII_dotless: "\<not> isASCII dotless_code"
  by (simp add: dotless_code_def isASCII_def byte_def RuneSelf_def)

lemma upper_dotless: "strings_ToUpper dotless_code = ''IBC-123''"
  by (simp add: strings_ToUpper_def not_isASCII_dotless strings_Map_def runes_dotless
      unicode_ToUpper_dotless_i unicode_ToUpper_ascii EncodeRune_def chr_def char_of_eq_iff)

text \<open>The code \<open>bc-123\<close> after a small a with macron (U+0101, the bytes C4 81).\<close>

lemma upper_macron:
  "strings_ToUpper (CHR 0xC4 # CHR 0x81 # ''bc-123'') = CHR 0xC4 # CHR 0x80 # ''BC-123''"
proof -
  have r: "runes (CHR 0xC4 # CHR 0x81 # ''bc-123'') = [0x0101, 98, 99, 45, 49, 50, 51]"
    by (simp add: runes_eval)
  show ?thesis
    by (simp add: strings_ToUpper_def isASCII_def byte_def RuneSelf_def strings_Map_def r
        unicode_ToUpper_examples unicode_ToUpper_ascii EncodeRune_def chr_def char_of_eq_iff)
qed

lemma contains_instagram: "strings_Contains ''www.instagram.com'' ''instagram.com''"
  by simp

lemma contains_example: "\<not> strings_Contains ''example.com'' ''instagram.com''"
  by simp

lemma demo_Command_reel:
  "demo_Command (stream_args reel) =
     \<lparr>StdoutPipe = None, StderrPipe = None, Start = None,
      stderr_lines = [''[download] 10% of 1.00MiB''],
      io_Copy = (4096, Some (Err ''write: broken pipe'')), Wait = None\<rparr>"
  by (simp add: demo_Command_def)

lemma demo_Command_other:
  "u \<noteq> reel \<Longrightarrow> demo_Command (stream_args u) =
     \<lparr>StdoutPipe = None, StderrPipe = None, Start = None,
      stderr_lines = [''ERROR: Unsupported URL''],
      io_Copy = (0, None), Wait = Some (Err ''exit status 1'')\<rparr>"
  by (simp add: demo_Command_def stream_args_def)

lemma Query_Get_get_stream: "Query_Get (get_stream u) ''url'' = u"
  by (simp add: Query_Get_def get_stream_def)

lemma progress_line: "strings_Contains ''[download] 10% of 1.00MiB'' ''[download]''"
  by simp

section \<open>The trace of a started stream\<close>

lemma WaitCalled_stderr_log: "WaitCalled \<notin> set (stderr_log ls)"
  by (auto simp: stderr_log_def)

lemma handleStream_started:
  assumes "Query_Get r ''url'' = u" and "u \<noteq> []"
    and "exec_Command e (stream_args u) = c"
    and "StdoutPipe c = None" and "StderrPipe c = None" and "Start c = None"
  shows "fst (handleStream e r) =
      \<lparr>status = 200,
       headers = [(''Content-Type'', ''video/mp4''), (''Transfer-Encoding'', ''chunked''),
                  (''Cache-Control'', ''no-cache'')],
       payload = Stream (fst (io_Copy c))\<rparr>"
    and "snd (handleStream e r) =
      [Log ''Streaming video from: %s'' [ArgS u], StartCalled (stream_args u)]
      @ stderr_log (stderr_lines c)
      @ (case snd (io_Copy c) of
           Some err \<Rightarrow> [Log ''Error streaming video: %v'' [ArgE err]]
         | None \<Rightarrow>
             WaitCalled
             # (case Wait c of
                  Some err \<Rightarrow> [Log ''yt-dlp process error: %v'' [ArgE err]]
                | None \<Rightarrow> [])
             @ [Log ''Streamed %d bytes'' [ArgN (fst (io_Copy c))]])"
  using assms by (simp_all add: handleStream_def Let_def split: option.split)

lemma handleStream_copy_error:
  assumes "Query_Get r ''url'' = u" and "u \<noteq> []"
    and "exec_Command e (stream_args u) = c"
    and "StdoutPipe c = None" and "StderrPipe c = None" and "Start c = None"
    and "snd (io_Copy c) = Some err"
  shows "StartCalled (stream_args u) \<in> set (snd (handleStream e r))"
    and "WaitCalled \<notin> set (snd (handleStream e r))"
  using assms handleStream_started(2) [of r u e c]
  by (simp_all add: WaitCalled_stderr_log)

section \<open>The gate without a store\<close>

text \<open>
  C1. When \<open>dynamoClient\<close> is \<open>nil\<close>, \<open>withAuth\<close> hands every request to the handler it
  wraps, whatever code the request carries or lacks; the handlers registered for
  \<open>/api/info\<close> and \<open>/api/stream\<close> are then the inner handlers themselves.
\<close>

theorem withAuth_unconfigured:
  assumes "dynamoClient e = None"
  shows "withAuth e next r = next r
    \<and> (\<exists>h. map_of (routes e) ''/api/info'' = Some h \<and> h r = handleVideoInfo e r)
    \<and> (\<exists>h. map_of (routes e) ''/api/stream'' = Some h \<and> h r = handleStream e r)"
  using assms by (simp add: withAuth_def routes_def)

theorem withAuth_unconfigured_witness:
  "dynamoClient (demo_env None) = None
   \<and> withAuth (demo_env None) (handleStream (demo_env None))
       ((get_stream reel)\<lparr>Header := [''X-Auth-Code'' \<mapsto> ''not a code'']\<rparr>)
     = handleStream (demo_env None)
       ((get_stream reel)\<lparr>Header := [''X-Auth-Code'' \<mapsto> ''not a code'']\<rparr>)"
  using withAuth_unconfigured [of "demo_env None" "handleStream (demo_env None)"
      "(get_stream reel)\<lparr>Header := [''X-Auth-Code'' \<mapsto> ''not a code'']\<rparr>"]
  by (simp add: demo_env_def)

section \<open>The streaming proxy after a failed copy\<close>

text \<open>
  C2. The specification wants the subprocess waited for after the copy loop ends for any
  reason. On a request whose copy fails after the subprocess was started (the client went
  away), \<open>handleStream\<close> logs the error and returns: the subprocess was started and
  \<open>cmd.Wait\<close> is never called.
\<close>

theorem handleStream_copy_error_never_waits:
  "snd (handleStream (demo_env None) (get_stream reel)) =
     [Log ''Streaming video from: %s'' [ArgS reel],
      StartCalled (stream_args reel),
      Log ''Error streaming video: %v'' [ArgE (Err ''write: broken pipe'')]]
   \<and> StartCalled (stream_args reel) \<in> set (snd (handleStream (demo_env None) (get_stream reel)))
   \<and> WaitCalled \<notin> set (snd (handleStream (demo_env None) (get_stream reel)))"
proof -
  have u: "reel \<noteq> []"
    by (simp add: reel_def)
  have c: "exec_Command (demo_env None) (stream_args reel) = demo_Command (stream_args reel)"
    by (simp add: demo_env_def)
  have "snd (handleStream (demo_env None) (get_stream reel)) =
     [Log ''Streaming video from: %s'' [ArgS reel],
      StartCalled (stream_args reel),
      Log ''Error streaming video: %v'' [ArgE (Err ''write: broken pipe'')]]"
    using handleStream_started(2) [OF Query_Get_get_stream u c]
    by (simp add: demo_Command_reel stderr_log_def progress_line)
  moreover have "StartCalled (stream_args reel)
      \<in> set (snd (handleStream (demo_env None) (get_stream reel)))"
    and "WaitCalled \<notin> set (snd (handleStream (demo_env None) (get_stream reel)))"
    using handleStream_copy_error [OF Query_Get_get_stream u c, of "Err ''write: broken pipe''"]
    by (simp_all add: demo_Command_reel)
  ultimately show ?thesis by simp
qed

section \<open>The streaming proxy on a URL it never checks\<close>

text \<open>
  C3. The specification wants a stream request with a malformed URL, a scheme other than
  \<open>http\<close> and \<open>https\<close>, or a host outside \<open>instagram.com\<close> refused with a 4xx status
  before any subprocess is started. \<open>handleStream\<close> checks only that the parameter is not
  empty: on \<open>ftp://instagram.com/video\<close>, \<open>https://example.com/video\<close> and
  \<open>::not a url\<close> it starts the tool on the URL and answers with status 200.
\<close>

theorem handleStream_spawns_on_any_url:
  "status (fst (handleStream (demo_env None) (get_stream ''ftp://instagram.com/video''))) = 200
   \<and> StartCalled (stream_args ''ftp://instagram.com/video'')
       \<in> set (snd (handleStream (demo_env None) (get_stream ''ftp://instagram.com/video'')))
   \<and> status (fst (handleStream (demo_env None) (get_stream ''https://example.com/video''))) = 200
   \<and> StartCalled (stream_args ''https://example.com/video'')
       \<in> set (snd (handleStream (demo_env None) (get_stream ''https://example.com/video'')))
   \<and> status (fst (handleStream (demo_env None) (get_stream ''::not a url''))) = 200
   \<and> StartCalled (stream_args ''::not a url'')
       \<in> set (snd (handleStream (demo_env None) (get_stream ''::not a url'')))"
proof -
  have started: "status (fst (handleStream (demo_env None) (get_stream u))) = 200
      \<and> StartCalled (stream_args u) \<in> set (snd (handleStream (demo_env None) (get_stream u)))"
    if "u \<noteq> []" and "u \<noteq> reel" for u
  proof -
    have c: "exec_Command (demo_env None) (stream_args u) = demo_Command (stream_args u)"
      by (simp add: demo_env_def)
    show ?thesis
      using handleStream_started [OF Query_Get_get_stream that(1) c] that(2)
      by (simp add: demo_Command_other)
  qed
  have "''ftp://instagram.com/video'' \<noteq> reel" "''https://example.com/video'' \<noteq> reel"
    "''::not a url'' \<noteq> reel"
    by (simp_all add: reel_def)
  then show ?thesis
    using started [of "''ftp://instagram.com/video''"] started [of "''https://example.com/video''"]
      started [of "''::not a url''"]
    by simp
qed

section \<open>The format of an access code\<close>

text \<open>
  C4, as stated: \<open>isValidCodeFormat\<close> accepts a string if and only if it matches
  \<open>[A-Za-z0-9]{3}-[A-Za-z0-9]{3}\<close>. This fails: \<open>strings.ToUpper\<close> maps the dotless i
  (U+0131, the bytes C4 B1) to the ASCII letter I, so the eight-byte string made of a
  dotless i and \<open>bc-123\<close> is upper-cased to \<open>IBC-123\<close> and accepted, though it does not
  match the pattern.
\<close>

theorem isValidCodeFormat_dotless_i_counterexample:
  "isValidCodeFormat dotless_code \<and> \<not> spec_code_format dotless_code"
  using valid_dotless not_spec_dotless by simp

lemma widened_without_extra_runes:
  assumes "0x0131 \<notin> set (runes s)" and "0x017F \<notin> set (runes s)"
  shows "widened_code_format s = spec_code_format s"
proof -
  have plain: "list_all (\<lambda>r. r \<noteq> 0x0131 \<and> r \<noteq> 0x017F) (runes s)"
    using assms by (auto simp add: list_all_iff)
  have "list_all2 item_matches (concat (map (\<lambda>(i, n). replicate n i) widened_pattern)) (runes s)
      = list_all2 item_matches (concat (map (\<lambda>(i, n). replicate n i) spec_pattern)) (runes s)"
    unfolding widened_items spec_items
    by (rule list_all2_pointwise [OF _ plain]) (simp add: alnum_widened_matches)
  then show ?thesis
    by (simp add: widened_code_format_def spec_code_format_def regexp_MatchString_def)
qed

text \<open>
  C4, amended: \<open>isValidCodeFormat\<close> accepts a string if and only if it is made of three
  runes out of \<open>[A-Za-z0-9]\<close>, U+0131 and U+017F, a hyphen, and three such runes again.
  So every string that matches \<open>[A-Za-z0-9]{3}-[A-Za-z0-9]{3}\<close> is accepted; a string of
  ASCII bytes, or any string without the runes U+0131 and U+017F, is accepted if and only
  if it matches that pattern; \<open>abc-123\<close> is accepted, \<open>ABCD-12\<close>, \<open>AB-123\<close> and the
  empty string are rejected.
\<close>

theorem isValidCodeFormat_iff_widened:
  "isValidCodeFormat s = widened_code_format s
   \<and> (spec_code_format s \<longrightarrow> isValidCodeFormat s)
   \<and> (isASCII s \<longrightarrow> isValidCodeFormat s = spec_code_format s)
   \<and> (0x0131 \<notin> set (runes s) \<and> 0x017F \<notin> set (runes s)
        \<longrightarrow> isValidCodeFormat s = spec_code_format s)
   \<and> isValidCodeFormat ''abc-123''
   \<and> \<not> isValidCodeFormat ''ABCD-12''
   \<and> \<not> isValidCodeFormat ''AB-123''
   \<and> \<not> isValidCodeFormat []"
proof -
  have e1: "widened_code_format ''abc-123''"
    by (simp add: match_eval runes_eval)
  have e2: "\<not> widened_code_format ''ABCD-12''"
    by (simp add: match_eval runes_eval)
  have e3: "\<not> widened_code_format ''AB-123''"
    by (simp add: match_eval runes_eval)
  have e4: "\<not> widened_code_format []"
    by (simp add: match_eval runes_eval)
  have "isValidCodeFormat s" if "spec_code_format s"
    using that spec_code_format_isASCII [OF that] isValidCodeFormat_isASCII [of s] by simp
  with e1 e2 e3 e4 show ?thesis
    by (simp add: isValidCodeFormat_widened widened_code_format_isASCII
        widened_without_extra_runes)
qed

theorem isValidCodeFormat_iff_widened_witness:
  "spec_code_format ''aB3-x9Z'' \<and> isASCII ''aB3-x9Z'' \<and> isValidCodeFormat ''aB3-x9Z''
   \<and> isASCII ''abc_123'' \<and> \<not> spec_code_format ''abc_123'' \<and> \<not> isValidCodeFormat ''abc_123''
   \<and> 0x0131 \<notin> set (runes (CHR 0xC3 # CHR 0xA9 # ''bc-123''))
   \<and> 0x017F \<notin> set (runes (CHR 0xC3 # CHR 0xA9 # ''bc-123''))
   \<and> \<not> isValidCodeFormat (CHR 0xC3 # CHR 0xA9 # ''bc-123'')
   \<and> \<not> isValidCodeFormat (CHR 0xFF # ''bc-123'')
   \<and> isValidCodeFormat (CHR 0xC5 # CHR 0xBF # ''bc-123'')"
proof -
  have a: "spec_code_format ''aB3-x9Z''"
    by (simp add: match_eval runes_eval)
  have b: "isASCII ''aB3-x9Z''" "isASCII ''abc_123''"
    by (simp_all add: isASCII_def byte_def RuneSelf_def)
  have c: "\<not> spec_code_format ''abc_123''"
    by (simp add: match_eval runes_eval)
  have d: "runes (CHR 0xC3 # CHR 0xA9 # ''bc-123'') = [0xE9, 98, 99, 45, 49, 50, 51]"
    by (simp add: runes_eval)
  have e: "\<not> spec_code_format (CHR 0xC3 # CHR 0xA9 # ''bc-123'')"
    by (simp add: match_eval d)
  have f: "\<not> widened_code_format (CHR 0xFF # ''bc-123'')"
    by (simp add: match_eval runes_eval)
  have g: "widened_code_format (CHR 0xC5 # CHR 0xBF # ''bc-123'')"
    by (simp add: match_eval runes_eval)
  have n: "0x0131 \<notin> set (runes (CHR 0xC3 # CHR 0xA9 # ''bc-123''))"
    "0x017F \<notin> set (runes (CHR 0xC3 # CHR 0xA9 # ''bc-123''))"
    by (simp_all add: d)
  from a isValidCodeFormat_iff_widened [of "''aB3-x9Z''"]
  have v1: "isValidCodeFormat ''aB3-x9Z''"
    by blast
  from b c isValidCodeFormat_iff_widened [of "''abc_123''"]
  have v2: "\<not> isValidCodeFormat ''abc_123''"
    by blast
  from n e isValidCodeFormat_iff_widened [of "CHR 0xC3 # CHR 0xA9 # ''bc-123''"]
  have v3: "\<not> isValidCodeFormat (CHR 0xC3 # CHR 0xA9 # ''bc-123'')"
    by blast
  from f isValidCodeFormat_iff_widened [of "CHR 0xFF # ''bc-123''"]
  have v4: "\<not> isValidCodeFormat (CHR 0xFF # ''bc-123'')"
    by blast
  from g isValidCodeFormat_iff_widened [of "CHR 0xC5 # CHR 0xBF # ''bc-123''"]
  have v5: "isValidCodeFormat (CHR 0xC5 # CHR 0xBF # ''bc-123'')"
    by blast
  from a b c n v1 v2 v3 v4 v5 show ?thesis
    by blast
qed

section \<open>The gate with a store\<close>

text \<open>
  C5. With a store configured and a well-formed code presented (in the header
  \<open>X-Auth-Code\<close>, or in the query parameter \<open>auth\<close> when the header is empty), a lookup
  that fails in transport is answered with status 500 and the body
  \<open>Internal server error\<close>, a lookup that finds no record with status 401 and the body
  \<open>Unauthorized: invalid auth code\<close>; the two responses differ.
\<close>

theorem withAuth_transport_failure_distinct:
  assumes "dynamoClient e1 = Some c1"
    and "dynamoClient e2 = Some c2"
    and "code = (if Header_Get r ''X-Auth-Code'' = [] then Query_Get r ''auth''
                 else Header_Get r ''X-Auth-Code'')"
    and "code \<noteq> []"
    and "isValidCodeFormat code"
    and "GetItem c1 (tableName e1) (strings_ToUpper code) = Inl err"
    and "GetItem c2 (tableName e2) (strings_ToUpper code) = Inr None"
  shows "fst (withAuth e1 next r) = http_Error ''Internal server error'' 500
    \<and> fst (withAuth e2 next r) = http_Error ''Unauthorized: invalid auth code'' 401
    \<and> status (fst (withAuth e1 next r)) = 500
    \<and> status (fst (withAuth e2 next r)) = 401
    \<and> fst (withAuth e1 next r) \<noteq> fst (withAuth e2 next r)"
proof -
  have v1: "validateCode e1 code =
      ((False, [], Some err), [GetItemCalled (tableName e1) (strings_ToUpper code)])"
    using assms by (simp add: validateCode_def)
  have v2: "validateCode e2 code =
      ((False, [], None), [GetItemCalled (tableName e2) (strings_ToUpper code)])"
    using assms by (simp add: validateCode_def)
  have r1: "fst (withAuth e1 next r) = http_Error ''Internal server error'' 500"
    using assms v1 by (simp add: withAuth_def Let_def)
  have r2: "fst (withAuth e2 next r) = http_Error ''Unauthorized: invalid auth code'' 401"
    using assms v2 by (simp add: withAuth_def Let_def)
  show ?thesis
    unfolding r1 r2 by (simp add: http_Error_def)
qed

theorem withAuth_transport_failure_distinct_witness:
  "status (fst (withAuth (demo_env (Some failing_client)) (handleStream (demo_env None))
       ((get_stream reel)\<lparr>Header := [''X-Auth-Code'' \<mapsto> ''XYZ-000'']\<rparr>))) = 500
   \<and> status (fst (withAuth (demo_env (Some table_client)) (handleStream (demo_env None))
       ((get_stream reel)\<lparr>Header := [''X-Auth-Code'' \<mapsto> ''XYZ-000'']\<rparr>))) = 401"
  using withAuth_transport_failure_distinct [of "demo_env (Some failing_client)" failing_client
      "demo_env (Some table_client)" table_client "''XYZ-000''"
      "(get_stream reel)\<lparr>Header := [''X-Auth-Code'' \<mapsto> ''XYZ-000'']\<rparr>"
      "Err ''RequestError: send request failed''" "handleStream (demo_env None)"]
  by (simp add: demo_env_def failing_client_def table_client_def demo_table_def Header_Get_def
      get_stream_def valid_XYZ000 upper_XYZ000 http_Error_def)

text \<open>
  C6. With a store configured, \<open>validateCode\<close> makes one lookup, under the presented code
  in upper case. A record found gives \<open>(true, name, nil)\<close>, where the name is the
  record's string attribute \<open>name\<close>, or the empty string when the record has none; no
  record gives \<open>(false, "", nil)\<close>. On the table that holds \<open>XYZ-789\<close> with the name
  \<open>Ada\<close>, the code \<open>xyz-789\<close> is allowed with the name \<open>Ada\<close>. Upper-casing follows
  Unicode: a code that starts with U+0131 is looked up under \<open>I\<close>, one that starts with
  U+0101 under U+0100.
\<close>

theorem validateCode_lookup:
  assumes "dynamoClient e = Some c"
  shows "snd (validateCode e code) = [GetItemCalled (tableName e) (strings_ToUpper code)]
    \<and> (\<forall>item. GetItem c (tableName e) (strings_ToUpper code) = Inr (Some item) \<longrightarrow>
          fst (validateCode e code) =
            (True, (case item ''name'' of Some (AttributeValueMemberS v) \<Rightarrow> v | _ \<Rightarrow> []), None))
    \<and> (GetItem c (tableName e) (strings_ToUpper code) = Inr None \<longrightarrow>
          fst (validateCode e code) = (False, [], None))"
  using assms by (simp add: validateCode_def Let_def split: sum.split option.split)

theorem validateCode_lookup_witness:
  "fst (validateCode (demo_env (Some table_client)) ''xyz-789'') = (True, ''Ada'', None)
   \<and> snd (validateCode (demo_env (Some table_client)) ''xyz-789'')
       = [GetItemCalled ''insta-stream-users'' ''XYZ-789'']
   \<and> fst (validateCode (demo_env (Some table_client)) ''ABC-123'') = (True, [], None)
   \<and> fst (validateCode (demo_env (Some table_client)) ''XYZ-000'') = (False, [], None)
   \<and> validateCode (demo_env (Some table_client)) dotless_code
       = ((False, [], None), [GetItemCalled ''insta-stream-users'' ''IBC-123''])
   \<and> validateCode (demo_env (Some table_client)) (CHR 0xC4 # CHR 0x81 # ''bc-123'')
       = ((False, [], None),
          [GetItemCalled ''insta-stream-users'' (CHR 0xC4 # CHR 0x80 # ''BC-123'')])"
proof -
  have c: "dynamoClient (demo_env (Some table_client)) = Some table_client"
    by (simp add: demo_env_def)
  show ?thesis
    using validateCode_lookup [OF c, of "''xyz-789''"]
      validateCode_lookup [OF c, of "''ABC-123''"]
      validateCode_lookup [OF c, of "''XYZ-000''"]
      validateCode_lookup [OF c, of dotless_code]
      validateCode_lookup [OF c, of "CHR 0xC4 # CHR 0x81 # ''bc-123''"]
    by (simp add: demo_env_def table_client_def demo_table_def upper_xyz upper_XYZ000
        upper_ABC123 upper_dotless upper_macron prod_eq_iff)
qed

section \<open>The metadata resolver: defaults and refusals\<close>

text \<open>
  C7. When a metadata request passes the checks, the tool exits with status 0 and its
  output parses to a JSON object, the answer is the JSON descriptor whose \<open>url\<close>,
  \<open>title\<close> and \<open>ext\<close> are the object's string fields of these names, each replaced by
  its default (the empty string, \<open>video\<close>, \<open>mp4\<close>) when it is absent or not a string.
  For the object \<open>{"title":"t1"}\<close> the descriptor is
  \<open>{url: "", title: "t1", ext: "mp4"}\<close>.
\<close>

theorem handleVideoInfo_defaults:
  assumes "Method r = ''POST''"
    and "json_Decode_StreamRequest e (Body r) = Inr req"
    and "req_URL req \<noteq> []"
    and "url_Parse e (req_URL req) = Inr u"
    and "Scheme u = ''http'' \<or> Scheme u = ''https''"
    and "strings_Contains (Host u) ''instagram.com''"
    and "cmd_Output e (info_args (req_URL req)) = Inr output"
    and "json_Unmarshal e output = Inr info"
  shows "fst (handleVideoInfo e r) =
      json_response (JObject
        [(''url'', JString (case info ''url'' of Some (JString v) \<Rightarrow> v | _ \<Rightarrow> [])),
         (''title'', JString (case info ''title'' of Some (JString v) \<Rightarrow> v | _ \<Rightarrow> ''video'')),
         (''ext'', JString (case info ''ext'' of Some (JString v) \<Rightarrow> v | _ \<Rightarrow> ''mp4''))])
    \<and> (info = [''title'' \<mapsto> JString ''t1''] \<longrightarrow>
         fst (handleVideoInfo e r) =
           json_response (JObject
             [(''url'', JString []), (''title'', JString ''t1''), (''ext'', JString ''mp4'')]))"
proof -
  from assms(6) have host: "Host u \<noteq> []"
    by (cases "Host u") auto
  from assms(5) have scheme: "Scheme u \<noteq> []"
    by auto
  have "fst (handleVideoInfo e r) =
      json_response (encode_VideoInfo
        \<lparr>URL = string_field info ''url'' [],
         Title = string_field info ''title'' ''video'',
         Extension = string_field info ''ext'' ''mp4''\<rparr>)"
    using assms host scheme by (auto simp add: handleVideoInfo_def)
  then have main: "fst (handleVideoInfo e r) =
      json_response (JObject
        [(''url'', JString (case info ''url'' of Some (JString v) \<Rightarrow> v | _ \<Rightarrow> [])),
         (''title'', JString (case info ''title'' of Some (JString v) \<Rightarrow> v | _ \<Rightarrow> ''video'')),
         (''ext'', JString (case info ''ext'' of Some (JString v) \<Rightarrow> v | _ \<Rightarrow> ''mp4''))])"
    by (simp add: encode_VideoInfo_def string_field_def)
  show ?thesis
    unfolding main by simp
qed

theorem handleVideoInfo_defaults_witness:
  \<open>fst (handleVideoInfo (demo_env None)
      (post ''/api/info'' Map.empty ''{"url":"https://www.instagram.com/reel/abc/"}'')) =
    json_response (JObject
      [(''url'', JString []), (''title'', JString ''t1''), (''ext'', JString ''mp4'')])\<close>
  using handleVideoInfo_defaults [of
      \<open>post ''/api/info'' Map.empty ''{"url":"https://www.instagram.com/reel/abc/"}''\<close>
      "demo_env None" "\<lparr>req_URL = reel\<rparr>"
      "\<lparr>Scheme = ''https'', Host = ''www.instagram.com''\<rparr>"
      \<open>''{"title":"t1"}''\<close> "[''title'' \<mapsto> JString ''t1'']"]
  by (simp add: demo_env_def post_def demo_Decode_StreamRequest_def demo_Parse_def
      demo_Output_def demo_Unmarshal_def contains_instagram reel_def)

text \<open>
  C8. A metadata request whose URL does not parse, has no scheme or no host, has a scheme
  other than \<open>http\<close> and \<open>https\<close>, or has a host that does not contain
  \<open>instagram.com\<close>, is answered with a 4xx status (400 when the method is POST), and
  the handler makes no call at all: the tool is not run.
\<close>

theorem handleVideoInfo_refuses_URL:
  assumes "json_Decode_StreamRequest e (Body r) = Inr req"
    and "refused_URL e (req_URL req)"
  shows "400 \<le> status (fst (handleVideoInfo e r))
    \<and> status (fst (handleVideoInfo e r)) < 500
    \<and> snd (handleVideoInfo e r) = []
    \<and> (Method r = ''POST'' \<longrightarrow> status (fst (handleVideoInfo e r)) = 400)"
  using assms
  by (auto simp add: handleVideoInfo_def refused_URL_def http_Error_def split: sum.splits)

theorem handleVideoInfo_refuses_URL_witness:
  \<open>refused_URL (demo_env None) ''https://example.com/video''
   \<and> status (fst (handleVideoInfo (demo_env None)
        (post ''/api/info'' Map.empty ''{"url":"https://example.com/video"}''))) = 400
   \<and> snd (handleVideoInfo (demo_env None)
        (post ''/api/info'' Map.empty ''{"url":"https://example.com/video"}'')) = []\<close>
proof -
  have r: "refused_URL (demo_env None) ''https://example.com/video''"
    by (simp add: refused_URL_def demo_env_def demo_Parse_def reel_def contains_example)
  have d: \<open>json_Decode_StreamRequest (demo_env None)
        (Body (post ''/api/info'' Map.empty ''{"url":"https://example.com/video"}''))
      = Inr \<lparr>req_URL = ''https://example.com/video''\<rparr>\<close>
    by (simp add: demo_env_def post_def demo_Decode_StreamRequest_def)
  have m: \<open>Method (post ''/api/info'' Map.empty ''{"url":"https://example.com/video"}'') = ''POST''\<close>
    by (simp add: post_def)
  from handleVideoInfo_refuses_URL [OF d] r m show ?thesis
    by simp
qed

section \<open>The code validation endpoint\<close>

lemma encode_AuthResponse_envelope:
  "\<exists>kvs. encode_AuthResponse a = JObject kvs
     \<and> map_of kvs ''valid'' = Some (JBool (Valid a))
     \<and> fst ` set kvs \<subseteq> {''valid'', ''name'', ''error''}"
  by (simp add: encode_AuthResponse_def)

text \<open>
  C9. Every POST to \<open>/api/auth\<close> is answered with status 200 and the JSON encoding of an
  \<open>AuthResponse\<close>: an object with the key \<open>valid\<close> and at most the keys \<open>name\<close> and
  \<open>error\<close>. The response is valid exactly when the body decodes, the code is not empty
  and well-formed, and \<open>validateCode\<close> returns true without an error; in every other case
  \<open>valid\<close> is false and \<open>error\<close> is not empty.
\<close>

theorem handleAuth_always_200:
  assumes "Method r = ''POST''"
  shows "\<exists>a. fst (handleAuth e r) = json_response (encode_AuthResponse a)
    \<and> status (fst (handleAuth e r)) = 200
    \<and> (\<exists>kvs. payload (fst (handleAuth e r)) = Json (JObject kvs)
          \<and> map_of kvs ''valid'' = Some (JBool (Valid a))
          \<and> fst ` set kvs \<subseteq> {''valid'', ''name'', ''error''})
    \<and> (Valid a \<longrightarrow> Error a = [])
    \<and> (\<not> Valid a \<longrightarrow> Error a \<noteq> [] \<and> Name a = [])
    \<and> (Valid a \<longleftrightarrow>
         (\<exists>req name evs. json_Decode_AuthRequest e (Body r) = Inr req \<and> Code req \<noteq> []
            \<and> isValidCodeFormat (Code req)
            \<and> validateCode e (Code req) = ((True, name, None), evs)))"
proof -
  have "\<exists>a. fst (handleAuth e r) = json_response (encode_AuthResponse a)
    \<and> (Valid a \<longrightarrow> Error a = [])
    \<and> (\<not> Valid a \<longrightarrow> Error a \<noteq> [] \<and> Name a = [])
    \<and> (Valid a \<longleftrightarrow>
         (\<exists>req name evs. json_Decode_AuthRequest e (Body r) = Inr req \<and> Code req \<noteq> []
            \<and> isValidCodeFormat (Code req)
            \<and> validateCode e (Code req) = ((True, name, None), evs)))"
  proof (cases "json_Decode_AuthRequest e (Body r)")
    case (Inl err)
    with assms show ?thesis
      by (intro exI [of _ "\<lparr>Valid = False, Name = [], Error = ''Invalid request body''\<rparr>"])
        (simp add: handleAuth_def)
  next
    case (Inr req)
    show ?thesis
    proof (cases "Code req = []")
      case True
      with assms Inr show ?thesis
        by (intro exI [of _ "\<lparr>Valid = False, Name = [], Error = ''Code is required''\<rparr>"])
          (simp add: handleAuth_def)
    next
      case nonempty: False
      show ?thesis
      proof (cases "isValidCodeFormat (Code req)")
        case False
        with assms Inr nonempty show ?thesis
          by (intro exI [of _ "\<lparr>Valid = False, Name = [],
                Error = ''Invalid code format. Expected: XXX-XXX''\<rparr>"])
            (simp add: handleAuth_def)
      next
        case True
        obtain valid name err evs where v: "validateCode e (Code req) = ((valid, name, err), evs)"
          by (metis prod.exhaust)
        show ?thesis
        proof (cases err)
          case (Some x)
          with assms Inr nonempty True v show ?thesis
            by (intro exI [of _ "\<lparr>Valid = False, Name = [],
                  Error = ''Failed to validate code''\<rparr>"])
              (simp add: handleAuth_def)
        next
          case None
          show ?thesis
          proof (cases valid)
            case False
            with assms Inr nonempty True v None show ?thesis
              by (intro exI [of _ "\<lparr>Valid = False, Name = [], Error = ''Invalid code''\<rparr>"])
                (simp add: handleAuth_def)
          next
            case valid: True
            with assms Inr nonempty True v None show ?thesis
              by (intro exI [of _ "\<lparr>Valid = True, Name = name, Error = []\<rparr>"])
                (simp add: handleAuth_def)
          qed
        qed
      qed
    qed
  qed
  then obtain a where a: "fst (handleAuth e r) = json_response (encode_AuthResponse a)"
    and rest: "Valid a \<longrightarrow> Error a = []" "\<not> Valid a \<longrightarrow> Error a \<noteq> [] \<and> Name a = []"
      "Valid a \<longleftrightarrow>
         (\<exists>req name evs. json_Decode_AuthRequest e (Body r) = Inr req \<and> Code req \<noteq> []
            \<and> isValidCodeFormat (Code req)
            \<and> validateCode e (Code req) = ((True, name, None), evs))"
    by blast
  from encode_AuthResponse_envelope [of a] obtain kvs where
    kvs: "encode_AuthResponse a = JObject kvs" "map_of kvs ''valid'' = Some (JBool (Valid a))"
      "fst ` set kvs \<subseteq> {''valid'', ''name'', ''error''}"
    by blast
  have "status (fst (handleAuth e r)) = 200"
    and "payload (fst (handleAuth e r)) = Json (JObject kvs)"
    using a kvs(1) by (simp_all add: json_response_def)
  with a rest kvs(2,3) show ?thesis
    by blast
qed


theorem handleAuth_always_200_witness:
  \<open>Method (post ''/api/auth'' Map.empty ''not json'') = ''POST''
   \<and> status (fst (handleAuth (demo_env (Some table_client))
         (post ''/api/auth'' Map.empty ''not json''))) = 200
   \<and> payload (fst (handleAuth (demo_env (Some table_client))
         (post ''/api/auth'' Map.empty ''not json'')))
       = Json (JObject [(''valid'', JBool False), (''error'', JString ''Invalid request body'')])
   \<and> fst (handleAuth (demo_env (Some table_client)) (post ''/api/auth'' Map.empty ''{}''))
       = json_response
           (JObject [(''valid'', JBool False), (''error'', JString ''Code is required'')])
   \<and> fst (handleAuth (demo_env (Some table_client))
         (post ''/api/auth'' Map.empty ''{"code":"AB-123"}''))
       = json_response
           (JObject [(''valid'', JBool False),
                     (''error'', JString ''Invalid code format. Expected: XXX-XXX'')])
   \<and> fst (handleAuth (demo_env (Some failing_client))
         (post ''/api/auth'' Map.empty ''{"code":"XYZ-000"}''))
       = json_response
           (JObject [(''valid'', JBool False), (''error'', JString ''Failed to validate code'')])
   \<and> fst (handleAuth (demo_env (Some table_client))
         (post ''/api/auth'' Map.empty ''{"code":"XYZ-000"}''))
       = json_response
           (JObject [(''valid'', JBool False), (''error'', JString ''Invalid code'')])
   \<and> fst (handleAuth (demo_env (Some table_client))
         (post ''/api/auth'' Map.empty ''{"code":"xyz-789"}''))
       = json_response (JObject [(''valid'', JBool True), (''name'', JString ''Ada'')])\<close>
proof -
  have m: "Method (post ''/api/auth'' Map.empty ''not json'') = ''POST''"
    by (simp add: post_def)
  have s: "status (fst (handleAuth (demo_env (Some table_client))
         (post ''/api/auth'' Map.empty ''not json''))) = 200"
    using handleAuth_always_200 [OF m, of "demo_env (Some table_client)"] by blast
  show ?thesis
    using m s
    by (simp add: handleAuth_def validateCode_def demo_env_def post_def
        demo_Decode_AuthRequest_def table_client_def failing_client_def demo_table_def
        json_response_def encode_AuthResponse_def invalid_AB123 valid_XYZ000 valid_xyz
        upper_XYZ000 upper_xyz)
qed

text \<open>
  C10, as stated: without a store, a POST to \<open>/api/auth\<close> rejects every malformed code
  in its body. This fails on the code made of a dotless i and \<open>bc-123\<close>: it does not
  match \<open>[A-Za-z0-9]{3}-[A-Za-z0-9]{3}\<close>, and the answer is
  \<open>{valid: true, name: "Local User"}\<close>.
\<close>

theorem handleAuth_degraded_open_counterexample:
  \<open>\<not> spec_code_format dotless_code
   \<and> handleAuth (demo_env None)
        (post ''/api/auth'' Map.empty (''{"code":"'' @ dotless_code @ [CHR 0x22, CHR ''}'']))
     = (json_response
          (JObject [(''valid'', JBool True), (''name'', JString ''Local User'')]), [])\<close>
proof -
  have \<open>demo_Decode_AuthRequest (''{"code":"'' @ dotless_code @ [CHR 0x22, CHR ''}''])
      = Inr \<lparr>Code = dotless_code\<rparr>\<close>
    by (simp add: demo_Decode_AuthRequest_def dotless_code_def)
  moreover have "dotless_code \<noteq> []"
    by (simp add: dotless_code_def)
  ultimately show ?thesis
    using not_spec_dotless valid_dotless
    by (simp add: handleAuth_def validateCode_def demo_env_def post_def json_response_def
        encode_AuthResponse_def)
qed

lemma spec_code_format_not_Nil: "spec_code_format s \<Longrightarrow> s \<noteq> []"
proof
  assume "spec_code_format s" and "s = []"
  moreover have "\<not> spec_code_format []"
    by (simp add: match_eval runes_eval)
  ultimately show False by simp
qed

text \<open>
  C10, amended: without a store, a POST to \<open>/api/auth\<close> whose body decodes is answered,
  with no lookup, by \<open>Code is required\<close> for an empty code, by
  \<open>{valid: true, name: "Local User"}\<close> for a code made of three runes out of
  \<open>[A-Za-z0-9]\<close>, U+0131 and U+017F, a hyphen and three such runes, so for every code
  that matches \<open>[A-Za-z0-9]{3}-[A-Za-z0-9]{3}\<close>, and by
  \<open>Invalid code format. Expected: XXX-XXX\<close> for every other code; the gate of the other
  endpoints hands every request to the inner handler without looking at its code.
\<close>

theorem handleAuth_degraded_open:
  assumes "dynamoClient e = None"
    and "Method r = ''POST''"
    and "json_Decode_AuthRequest e (Body r) = Inr req"
  shows "handleAuth e r =
      (json_response (encode_AuthResponse
         (if Code req = [] then \<lparr>Valid = False, Name = [], Error = ''Code is required''\<rparr>
          else if widened_code_format (Code req)
            then \<lparr>Valid = True, Name = ''Local User'', Error = []\<rparr>
          else \<lparr>Valid = False, Name = [],
                Error = ''Invalid code format. Expected: XXX-XXX''\<rparr>)), [])
    \<and> (spec_code_format (Code req) \<longrightarrow>
         handleAuth e r =
           (json_response (encode_AuthResponse
              \<lparr>Valid = True, Name = ''Local User'', Error = []\<rparr>), []))
    \<and> withAuth e next r' = next r'"
proof -
  have main: "handleAuth e r =
      (json_response (encode_AuthResponse
         (if Code req = [] then \<lparr>Valid = False, Name = [], Error = ''Code is required''\<rparr>
          else if widened_code_format (Code req)
            then \<lparr>Valid = True, Name = ''Local User'', Error = []\<rparr>
          else \<lparr>Valid = False, Name = [],
                Error = ''Invalid code format. Expected: XXX-XXX''\<rparr>)), [])"
    using assms
    by (simp add: handleAuth_def validateCode_def isValidCodeFormat_widened)
  have "widened_code_format (Code req) \<and> Code req \<noteq> []" if "spec_code_format (Code req)"
    using that spec_code_format_isASCII [OF that] spec_code_format_not_Nil [OF that]
    by (simp add: widened_code_format_isASCII)
  with main assms(1) show ?thesis
    by (simp add: withAuth_def)
qed

theorem handleAuth_degraded_open_witness:
  \<open>spec_code_format ''XYZ-000''
   \<and> handleAuth (demo_env None) (post ''/api/auth'' Map.empty ''{"code":"XYZ-000"}'')
     = (json_response
          (JObject [(''valid'', JBool True), (''name'', JString ''Local User'')]), [])
   \<and> handleAuth (demo_env None) (post ''/api/auth'' Map.empty ''{"code":"AB-123"}'')
     = (json_response
          (JObject [(''valid'', JBool False),
                    (''error'', JString ''Invalid code format. Expected: XXX-XXX'')]), [])
   \<and> handleAuth (demo_env None) (post ''/api/auth'' Map.empty ''{}'')
     = (json_response
          (JObject [(''valid'', JBool False), (''error'', JString ''Code is required'')]), [])
   \<and> withAuth (demo_env None) (handleVideoInfo (demo_env None))
        (post ''/api/info'' [''X-Auth-Code'' \<mapsto> ''AB-123'']
           ''{"url":"https://www.instagram.com/reel/abc/"}'')
     = handleVideoInfo (demo_env None)
        (post ''/api/info'' [''X-Auth-Code'' \<mapsto> ''AB-123'']
           ''{"url":"https://www.instagram.com/reel/abc/"}'')\<close>
proof -
  have s: "spec_code_format ''XYZ-000''"
    by (simp add: match_eval runes_eval)
  have w: "widened_code_format ''XYZ-000''" "\<not> widened_code_format ''AB-123''"
    by (simp_all add: match_eval runes_eval)
  show ?thesis
    using s w
      handleAuth_degraded_open [of "demo_env None"
        \<open>post ''/api/auth'' Map.empty ''{"code":"XYZ-000"}''\<close> "\<lparr>Code = ''XYZ-000''\<rparr>"
        "handleVideoInfo (demo_env None)"
        \<open>post ''/api/info'' [''X-Auth-Code'' \<mapsto> ''AB-123'']
             ''{"url":"https://www.instagram.com/reel/abc/"}''\<close>]
      handleAuth_degraded_open [of "demo_env None"
        \<open>post ''/api/auth'' Map.empty ''{"code":"AB-123"}''\<close> "\<lparr>Code = ''AB-123''\<rparr>"]
      handleAuth_degraded_open [of "demo_env None"
        \<open>post ''/api/auth'' Map.empty ''{}''\<close> "\<lparr>Code = []\<rparr>"]
    by (simp add: demo_env_def post_def demo_Decode_AuthRequest_def encode_AuthResponse_def
        dotless_code_def)
qed

end
